theory Spec2Isabelle
  imports Complex_Main
begin

section \<open>Python values, exceptions and the two effect types\<close>

text \<open>
  The repository is two Python modules: \<^verbatim>\<open>querymethods.py\<close> (three functions that fetch
  appointment records from an InterSystems IRIS database into a pandas frame) and
  \<^verbatim>\<open>utils.py\<close> (a timing decorator, a preprocessing function on such a frame and a
  LightGBM inference wrapper).  Every exception a call can raise is a value of
  \<open>error\<close>; \<open>External\<close> stands for whatever the database driver, the JSON decoder or
  LightGBM raise themselves.
\<close>

datatype error =
  KeyError | ValueError | TypeError | IndexError | AttributeError | External string

text \<open>
  A scalar as it sits in a Python list, a decoded JSON object or a frame cell.
  \<open>VNone\<close> is the missing value (\<^verbatim>\<open>None\<close> in a Python list, \<^verbatim>\<open>NaN\<close>/\<^verbatim>\<open>NaT\<close> in a
  frame); \<open>VTimestamp\<close> carries the nanoseconds since 1970-01-01 of a
  \<^verbatim>\<open>datetime64[ns]\<close> cell.  A float cell carries the real number it stands for.
\<close>

datatype val =
  is_VInt: VInt int
| is_VFloat: VFloat real
| is_VBool: VBool bool
| is_VStr: VStr string
| VNone
| is_VTimestamp: VTimestamp int

definition ebind :: "error + 'a \<Rightarrow> ('a \<Rightarrow> error + 'b) \<Rightarrow> error + 'b" where
  "ebind m f = (case m of Inl e \<Rightarrow> Inl e | Inr x \<Rightarrow> f x)"

text \<open>
  A call that may raise and may change a state \<open>'s\<close> (the database for the query
  functions; the object store and the clock for the pipeline).  An exception leaves
  the state as it was when it was raised.
\<close>

type_synonym ('s, 'a) py = "'s \<Rightarrow> (error + 'a) \<times> 's"

definition ret :: "'a \<Rightarrow> ('s, 'a) py" where
  "ret x = (\<lambda>s. (Inr x, s))"

definition lift :: "error + 'a \<Rightarrow> ('s, 'a) py" where
  "lift m = (\<lambda>s. (m, s))"

definition bnd :: "('s, 'a) py \<Rightarrow> ('a \<Rightarrow> ('s, 'b) py) \<Rightarrow> ('s, 'b) py" where
  "bnd m f = (\<lambda>s. case m s of (Inl e, s') \<Rightarrow> (Inl e, s') | (Inr x, s') \<Rightarrow> f x s')"

section \<open>Python floats\<close>

text \<open>
  A Python float is an IEEE 754 binary64 number.  \<open>Finite m e\<close> is the number
  \<open>m * 2 ^ e\<close>; the format holds it when it can be written with \<open>\<bar>m\<bar> < 2 ^ 53\<close> and
  \<open>-1074 \<le> e \<le> 971\<close>.  The sign of a zero is not kept.
\<close>

datatype pyfloat = Finite int int | PosInf | NegInf | NaN

definition real_of_float :: "int \<Rightarrow> int \<Rightarrow> real" where
  "real_of_float m e = of_int m * 2 powr of_int e"

fun bit_length :: "nat \<Rightarrow> nat" where
  "bit_length n = (if n = 0 then 0 else Suc (bit_length (n div 2)))"

declare bit_length.simps [simp del]

text \<open>\<open>m / 2 ^ k\<close> rounded to the nearest integer, a tie to the even one.\<close>

definition round_half_even :: "nat \<Rightarrow> nat \<Rightarrow> nat" where
  "round_half_even m k =
     (let q = m div 2 ^ k; r = m mod 2 ^ k
      in if 2 ^ k < 2 * r \<or> (2 * r = 2 ^ k \<and> odd q) then q + 1 else q)"

text \<open>
  The binary64 number nearest to \<open>m * 2 ^ e\<close>: the low \<open>k\<close> bits that do not fit 53
  bits, or lie below the exponent of the subnormal numbers, are rounded away; a
  result of \<open>2 ^ 1024\<close> or more is an infinity.
\<close>

definition to_binary64 :: "int \<Rightarrow> int \<Rightarrow> pyfloat" where
  "to_binary64 m e =
     (let k = nat (max (int (bit_length (nat \<bar>m\<bar>)) - 53) (- 1074 - e));
          q = round_half_even (nat \<bar>m\<bar>) k
      in if q \<noteq> 0 \<and> 1024 < int (bit_length q) + e + int k
         then (if 0 < m then PosInf else NegInf)
         else Finite (sgn m * int q) (e + int k))"

text \<open>\<^verbatim>\<open>x - y\<close> on floats: the exact difference, rounded.\<close>

fun float_sub :: "pyfloat \<Rightarrow> pyfloat \<Rightarrow> pyfloat" where
  "float_sub (Finite m1 e1) (Finite m2 e2) =
     (let e = min e1 e2
      in to_binary64 (m1 * 2 ^ nat (e1 - e) - m2 * 2 ^ nat (e2 - e)) e)"
| "float_sub NaN y = NaN"
| "float_sub x NaN = NaN"
| "float_sub PosInf PosInf = NaN"
| "float_sub NegInf NegInf = NaN"
| "float_sub PosInf y = PosInf"
| "float_sub NegInf y = NegInf"
| "float_sub (Finite m e) PosInf = NegInf"
| "float_sub (Finite m e) NegInf = PosInf"

text \<open>\<^verbatim>\<open>x <= y\<close> on floats: false when either side is not a number.\<close>

fun float_le :: "pyfloat \<Rightarrow> pyfloat \<Rightarrow> bool" where
  "float_le (Finite m1 e1) (Finite m2 e2) =
     (let e = min e1 e2 in m1 * 2 ^ nat (e1 - e) \<le> m2 * 2 ^ nat (e2 - e))"
| "float_le NaN y = False"
| "float_le x NaN = False"
| "float_le NegInf y = True"
| "float_le x PosInf = True"
| "float_le PosInf y = False"
| "float_le (Finite m e) NegInf = False"

text \<open>The float an integer converts to, as a real; no float when it overflows.\<close>

definition float_of_int :: "int \<Rightarrow> real option" where
  "float_of_int i =
     (case to_binary64 i 0 of Finite m e \<Rightarrow> Some (real_of_float m e) | _ \<Rightarrow> None)"

section \<open>pandas frames\<close>

datatype dtype =
  DBool | DInt8 | DInt32 | DInt64 | DUInt64 | DFloat64 | DObject | DCategory | DDatetime64

record series =
  dtype :: dtype
  cells :: "val list"

text \<open>A frame: its columns in order, each a name and a series, and the length of its index.\<close>

record frame =
  cols :: "(string \<times> series) list"
  nrows :: nat

definition names :: "frame \<Rightarrow> string list" where
  "names f = map fst (cols f)"

text \<open>
  The dtype pandas infers for a column of Python objects.  It reads the cells in
  order and notes what it has seen; a string, an integer outside the 64-bit ranges,
  or a negative integer beside one from \<open>2 ^ 63\<close> on, ends the reading with
  \<^verbatim>\<open>object\<close>.  Once a missing cell has been read integers are no longer checked
  against the 64-bit ranges, since the column will hold floats; an integer that no
  float holds leaves the column as objects.
\<close>

record seen =
  seen_null :: bool
  seen_bool :: bool
  seen_float :: bool
  seen_int :: bool
  seen_uint :: bool
  seen_sint :: bool
  seen_datetime :: bool
  seen_object :: bool

definition seen_nothing :: seen where
  "seen_nothing =
     \<lparr>seen_null = False, seen_bool = False, seen_float = False, seen_int = False,
      seen_uint = False, seen_sint = False, seen_datetime = False, seen_object = False\<rparr>"

fun see :: "seen \<Rightarrow> val \<Rightarrow> seen" where
  "see s VNone = s\<lparr>seen_null := True\<rparr>"
| "see s (VBool b) = s\<lparr>seen_bool := True\<rparr>"
| "see s (VFloat x) = s\<lparr>seen_float := True\<rparr>"
| "see s (VInt i) =
     (if seen_null s then
        (if float_of_int i = None then s\<lparr>seen_int := True, seen_object := True\<rparr>
         else s\<lparr>seen_int := True\<rparr>)
      else
        (let u = (seen_uint s \<or> 2 ^ 63 \<le> i); g = (seen_sint s \<or> i < 0)
         in s\<lparr>seen_int := True, seen_uint := u, seen_sint := g,
              seen_object := (u \<and> g) \<or> 2 ^ 64 \<le> i \<or> i < - (2 ^ 63)\<rparr>))"
| "see s (VStr t) = s\<lparr>seen_object := True\<rparr>"
| "see s (VTimestamp t) = s\<lparr>seen_datetime := True\<rparr>"

fun scan :: "seen \<Rightarrow> val list \<Rightarrow> seen" where
  "scan s [] = s"
| "scan s (v # vs) = (let s' = see s v in if seen_object s' then s' else scan s' vs)"

text \<open>
  All missing (or no cell at all) stays \<^verbatim>\<open>object\<close>; bools alone give \<^verbatim>\<open>bool\<close>;
  integers alone give \<^verbatim>\<open>int64\<close>, or \<^verbatim>\<open>uint64\<close> when one is \<open>2 ^ 63\<close> or more;
  numbers with a float or a missing cell give \<^verbatim>\<open>float64\<close>; timestamps, with or
  without missing cells, give \<^verbatim>\<open>datetime64[ns]\<close>; every other mixture is \<^verbatim>\<open>object\<close>.
\<close>

definition infer_dtype :: "val list \<Rightarrow> dtype" where
  "infer_dtype vs =
     (let s = scan seen_nothing vs
      in if seen_object s then DObject
         else if seen_bool s then
           (if seen_null s \<or> seen_float s \<or> seen_int s \<or> seen_datetime s then DObject
            else DBool)
         else if seen_datetime s then
           (if seen_float s \<or> seen_int s then DObject else DDatetime64)
         else if seen_float s then DFloat64
         else if seen_int s then
           (if seen_null s then DFloat64 else if seen_uint s then DUInt64 else DInt64)
         else DObject)"

text \<open>
  The cell a column of a dtype holds for a Python object: a \<^verbatim>\<open>float64\<close> column holds
  an integer as the float it converts to; every other cell keeps its value.
\<close>

definition cell_of :: "dtype \<Rightarrow> val \<Rightarrow> val" where
  "cell_of d v =
     (case v of
        VInt i \<Rightarrow>
          (if d = DFloat64 then (case float_of_int i of Some x \<Rightarrow> VFloat x | None \<Rightarrow> v)
           else v)
      | _ \<Rightarrow> v)"

definition make_series :: "val list \<Rightarrow> series" where
  "make_series vs = (let d = infer_dtype vs in \<lparr>dtype = d, cells = map (cell_of d) vs\<rparr>)"

text \<open>
  \<^verbatim>\<open>pd.DataFrame(data, columns=columns)\<close> for a list of row lists.  No row: an empty
  frame with the given columns.  Otherwise short rows are padded with missing cells
  to the longest row, and a width other than the number of columns is a ValueError.
\<close>

definition DataFrame_rows :: "val list list \<Rightarrow> string list \<Rightarrow> error + frame" where
  "DataFrame_rows data columns =
     (if data = [] then
        Inr \<lparr>cols = map (\<lambda>c. (c, \<lparr>dtype = DObject, cells = []\<rparr>)) columns, nrows = 0\<rparr>
      else if foldr max (map length data) 0 \<noteq> length columns then Inl ValueError
      else Inr \<lparr>cols = map (\<lambda>j. (columns ! j,
                    make_series (map (\<lambda>row. if j < length row then row ! j else VNone) data)))
                  [0 ..< length columns],
                nrows = length data\<rparr>)"

text \<open>
  \<^verbatim>\<open>pd.DataFrame(py_rows)\<close> for a list of dicts (a dict is an association list in
  insertion order, its keys distinct).  The columns are the keys in the order they are
  first seen; a key a dict lacks is a missing cell.  No dict: no column.
\<close>

fun union_keys :: "string list \<Rightarrow> string list \<Rightarrow> string list" where
  "union_keys seen [] = seen"
| "union_keys seen (k # ks) = union_keys (if k \<in> set seen then seen else seen @ [k]) ks"

definition DataFrame_dicts :: "(string \<times> val) list list \<Rightarrow> frame" where
  "DataFrame_dicts py_rows =
     \<lparr>cols = map (\<lambda>c. (c, make_series
                (map (\<lambda>d. case map_of d c of Some v \<Rightarrow> v | None \<Rightarrow> VNone) py_rows)))
              (union_keys [] (concat (map (map fst) py_rows))),
      nrows = length py_rows\<rparr>"


section \<open>The database interface (querymethods.py)\<close>

text \<open>
  What the \<^verbatim>\<open>iris\<close> module gives the three functions.  The database is a state
  \<open>'db\<close>; a class method and an SQL statement may change it, reading a global may
  not.  \<open>DynamicSQL\<close> is the class method \<^verbatim>\<open>MockPackage.MockInference.DynamicSQL\<close>,
  \<open>sql_execute\<close> is \<^verbatim>\<open>iris.sql.prepare(query).execute()\<close> with the rows its result
  set yields, \<open>gref_keys\<close> and \<open>gref_get\<close> are \<^verbatim>\<open>keys([])\<close> and indexing of an
  \<^verbatim>\<open>iris.gref\<close>, \<open>ToList\<close> is \<^verbatim>\<open>%SYS.Python.ToList\<close>, and \<open>json_loads\<close> is the
  decoder of the standard library applied to the JSON text of an object.
  The key iterator is lazy: it yields keys and may then raise.
\<close>

datatype iris_obj = PyNone | EmptyStr | IrisObject "error + string"

record collection =
  Size :: "error + nat"
  Get :: "nat \<Rightarrow> error + iris_obj"

type_synonym key = "val list"
type_synonym raw = string

record 'db iris =
  DynamicSQL :: "int \<Rightarrow> 'db \<Rightarrow> (error + collection) \<times> 'db"
  sql_execute :: "string \<Rightarrow> 'db \<Rightarrow> (error + val list list) \<times> 'db"
  gref_keys :: "string \<Rightarrow> 'db \<Rightarrow> key list \<times> error option"
  gref_get :: "string \<Rightarrow> key \<Rightarrow> 'db \<Rightarrow> error + raw"
  ToList :: "raw \<Rightarrow> error + val list"
  json_loads :: "string \<Rightarrow> error + (string \<times> val) list"

subsection \<open>dynamic_sql_query\<close>

text \<open>
  The loop over \<^verbatim>\<open>range(0, rows._Size() + 1)\<close>: an element that is \<^verbatim>\<open>None\<close> or the
  empty string is skipped, any other is serialised and decoded.
\<close>

fun rows_loop ::
  "'db iris \<Rightarrow> collection \<Rightarrow> nat list \<Rightarrow> (string \<times> val) list list
     \<Rightarrow> error + (string \<times> val) list list" where
  "rows_loop api rows [] py_rows = Inr py_rows"
| "rows_loop api rows (i # is) py_rows =
     ebind (Get rows i) (\<lambda>row.
       case row of
         PyNone \<Rightarrow> rows_loop api rows is py_rows
       | EmptyStr \<Rightarrow> rows_loop api rows is py_rows
       | IrisObject to_json \<Rightarrow>
           ebind to_json (\<lambda>s.
           ebind (json_loads api s) (\<lambda>py_row.
           rows_loop api rows is (py_rows @ [py_row]))))"

definition dynamic_sql_query :: "'db iris \<Rightarrow> int \<Rightarrow> ('db, frame) py" where
  "dynamic_sql_query api lower_age =
     bnd (DynamicSQL api lower_age) (\<lambda>rows.
     bnd (lift (Size rows)) (\<lambda>n.
     bnd (lift (rows_loop api rows [0 ..< n + 1] [])) (\<lambda>py_rows.
     ret (DataFrame_dicts py_rows))))"

subsection \<open>iris_sql_query\<close>

definition columns :: "string list" where
  "columns =
     [''patientid'', ''appointmentid'', ''gender'', ''scheduledday'',
      ''appointmentday'', ''age'', ''neighbourhood'', ''scholarship'',
      ''hipertension'', ''diabetes'', ''alcoholism'', ''handcap'',
      ''sms_received'', ''showed_up'', ''date_diff'']"

fun str_join :: "string \<Rightarrow> string list \<Rightarrow> string" where
  "str_join sep [] = []"
| "str_join sep [x] = x"
| "str_join sep (x # y # ys) = x @ sep @ str_join sep (y # ys)"

text \<open>The decimal text of an integer, as an f-string formats it.\<close>

fun str_nat :: "nat \<Rightarrow> string" where
  "str_nat n =
     (if n < 10 then [''0123456789'' ! n]
      else str_nat (n div 10) @ [''0123456789'' ! (n mod 10)])"

declare str_nat.simps [simp del]

definition str_int :: "int \<Rightarrow> string" where
  "str_int i = (if i < 0 then CHR ''-'' # str_nat (nat (- i)) else str_nat (nat i))"

definition query :: "int \<Rightarrow> string" where
  "query lower_age =
     ''SELECT '' @ str_join '', '' columns
       @ '' FROM MockPackage.NoShowsAppointments WHERE age >= '' @ str_int lower_age"

definition iris_sql_query :: "'db iris \<Rightarrow> int \<Rightarrow> ('db, frame) py" where
  "iris_sql_query api lower_age =
     bnd (sql_execute api (query lower_age)) (\<lambda>stmt.
     lift (DataFrame_rows stmt columns))"

subsection \<open>iris_global_query\<close>

text \<open>\<^verbatim>\<open>columns.index("age")\<close>: the first position of the element, or a ValueError.\<close>

fun list_index :: "'a list \<Rightarrow> 'a \<Rightarrow> error + nat" where
  "list_index [] x = Inl ValueError"
| "list_index (y # ys) x =
     (if y = x then Inr 0 else ebind (list_index ys x) (\<lambda>i. Inr (Suc i)))"

text \<open>\<^verbatim>\<open>python_list[idx_filter]\<close> for a non-negative index.\<close>

definition py_index :: "'a list \<Rightarrow> nat \<Rightarrow> error + 'a" where
  "py_index xs i = (if i < length xs then Inr (xs ! i) else Inl IndexError)"

text \<open>
  \<^verbatim>\<open>v >= lower_age\<close> for an integer \<^verbatim>\<open>lower_age\<close>: numbers compare (a bool as 0 or
  1), anything else is a TypeError.
\<close>

fun py_ge :: "val \<Rightarrow> int \<Rightarrow> error + bool" where
  "py_ge (VInt a) n = Inr (n \<le> a)"
| "py_ge (VFloat x) n = Inr (of_int n \<le> x)"
| "py_ge (VBool b) n = Inr (n \<le> (if b then 1 else 0))"
| "py_ge v n = Inl TypeError"

definition gname :: string where
  "gname = ''^vCVc.Dvei.1''"

fun global_loop ::
  "'db iris \<Rightarrow> 'db \<Rightarrow> int \<Rightarrow> nat \<Rightarrow> key list \<Rightarrow> val list list \<Rightarrow> error + val list list" where
  "global_loop api db lower_age idx_filter [] processed_data = Inr processed_data"
| "global_loop api db lower_age idx_filter (key # keys) processed_data =
     ebind (gref_get api gname key db) (\<lambda>raw_val.
     ebind (ToList api raw_val) (\<lambda>python_list.
     ebind (py_index python_list idx_filter) (\<lambda>v.
     ebind (py_ge v lower_age) (\<lambda>keep.
     global_loop api db lower_age idx_filter keys
       (if keep then processed_data @ [python_list] else processed_data)))))"

definition iris_global_query :: "'db iris \<Rightarrow> int \<Rightarrow> ('db, frame) py" where
  "iris_global_query api lower_age = (\<lambda>db.
     (ebind (list_index columns ''age'') (\<lambda>idx_filter.
        case gref_keys api gname db of (keys, stop) \<Rightarrow>
          ebind (global_loop api db lower_age idx_filter keys []) (\<lambda>processed_data.
            case stop of
              Some e \<Rightarrow> Inl e
            | None \<Rightarrow> DataFrame_rows processed_data columns)),
      db))"

section \<open>The object store and the clock (utils.py)\<close>

text \<open>
  A frame variable of the Python code is a reference into a store of frame objects:
  \<^verbatim>\<open>drop\<close> and \<^verbatim>\<open>astype\<close> build a new object, an assignment \<^verbatim>\<open>df[name] = ...\<close>
  changes the object the variable refers to.  \<open>clock\<close> is the sequence of values
  successive calls of \<^verbatim>\<open>time.time()\<close> return, \<open>ticks\<close> the number of calls so far.
\<close>

record world =
  store :: "nat \<Rightarrow> frame"
  next_ref :: nat
  clock :: "nat \<Rightarrow> pyfloat"
  ticks :: nat

definition new_frame :: "frame \<Rightarrow> (world, nat) py" where
  "new_frame f = (\<lambda>w.
     (Inr (next_ref w),
      w\<lparr>store := (store w)(next_ref w := f), next_ref := Suc (next_ref w)\<rparr>))"

definition time_time :: "(world, pyfloat) py" where
  "time_time = (\<lambda>w. (Inr (clock w (ticks w)), w\<lparr>ticks := Suc (ticks w)\<rparr>))"

subsection \<open>Frame operations\<close>

text \<open>\<^verbatim>\<open>df.drop(columns=labels)\<close>: a label that is no column is a KeyError.\<close>

definition drop_columns :: "string list \<Rightarrow> frame \<Rightarrow> frame" where
  "drop_columns labels f = f\<lparr>cols := filter (\<lambda>(c, s). c \<notin> set labels) (cols f)\<rparr>"

definition df_drop :: "string list \<Rightarrow> nat \<Rightarrow> (world, nat) py" where
  "df_drop labels df = (\<lambda>w.
     if list_all (\<lambda>l. l \<in> set (names (store w df))) labels
     then new_frame (drop_columns labels (store w df)) w
     else (Inl KeyError, w))"

text \<open>
  \<^verbatim>\<open>df.astype({column: dtype})\<close> for the two target dtypes the code asks for.  A
  key that is no column is a KeyError; the columns are converted in frame order.
  The parameter \<open>P\<close> is the conversion pandas applies to a cell of a column that is
  neither missing nor a timestamp already (it parses a text, reads a number as
  nanoseconds): given the column and the cell it raises, or returns the nanoseconds
  since 1970-01-01, or nothing for \<^verbatim>\<open>NaT\<close>.
\<close>

datatype target = Category | Datetime64

type_synonym conversion = "val list \<Rightarrow> val \<Rightarrow> error + int option"

fun traverse :: "('a \<Rightarrow> error + 'b) \<Rightarrow> 'a list \<Rightarrow> error + 'b list" where
  "traverse f [] = Inr []"
| "traverse f (x # xs) = ebind (f x) (\<lambda>y. ebind (traverse f xs) (\<lambda>ys. Inr (y # ys)))"

definition to_datetime :: "conversion \<Rightarrow> val list \<Rightarrow> val \<Rightarrow> error + val" where
  "to_datetime P column v =
     (case v of
        VNone \<Rightarrow> Inr VNone
      | VTimestamp t \<Rightarrow> Inr (VTimestamp t)
      | _ \<Rightarrow> ebind (P column v)
               (\<lambda>r. Inr (case r of None \<Rightarrow> VNone | Some t \<Rightarrow> VTimestamp t)))"

fun series_astype :: "conversion \<Rightarrow> target \<Rightarrow> series \<Rightarrow> error + series" where
  "series_astype P Category s = Inr (s\<lparr>dtype := DCategory\<rparr>)"
| "series_astype P Datetime64 s =
     ebind (traverse (to_datetime P (cells s)) (cells s))
       (\<lambda>vs. Inr \<lparr>dtype = DDatetime64, cells = vs\<rparr>)"

definition astype_columns ::
  "conversion \<Rightarrow> (string \<times> target) list \<Rightarrow> frame \<Rightarrow> error + frame" where
  "astype_columns P mapping f =
     ebind (traverse (\<lambda>(c, s). case map_of mapping c of
                                 None \<Rightarrow> Inr (c, s)
                               | Some t \<Rightarrow> ebind (series_astype P t s) (\<lambda>s'. Inr (c, s')))
              (cols f))
       (\<lambda>cs. Inr (f\<lparr>cols := cs\<rparr>))"

definition df_astype :: "conversion \<Rightarrow> (string \<times> target) list \<Rightarrow> nat \<Rightarrow> (world, nat) py" where
  "df_astype P mapping df = (\<lambda>w.
     if list_all (\<lambda>(c, t). c \<in> set (names (store w df))) mapping
     then bnd (lift (astype_columns P mapping (store w df))) new_frame w
     else (Inl KeyError, w))"

text \<open>\<^verbatim>\<open>df[col]\<close> reads a column (KeyError when there is none).\<close>

definition df_getitem :: "nat \<Rightarrow> string \<Rightarrow> (world, series) py" where
  "df_getitem df col = (\<lambda>w.
     case map_of (cols (store w df)) col of
       None \<Rightarrow> (Inl KeyError, w)
     | Some s \<Rightarrow> (Inr s, w))"

text \<open>
  \<^verbatim>\<open>df[col] = s\<close> changes the object in place: it replaces the column of that
  name, or appends a new last column.
\<close>

definition set_column :: "string \<Rightarrow> series \<Rightarrow> frame \<Rightarrow> frame" where
  "set_column col s f =
     f\<lparr>cols := (if col \<in> set (names f)
                then map (\<lambda>(c, old). if c = col then (c, s) else (c, old)) (cols f)
                else cols f @ [(col, s)])\<rparr>"

definition df_setitem :: "nat \<Rightarrow> string \<Rightarrow> series \<Rightarrow> (world, unit) py" where
  "df_setitem df col s = (\<lambda>w.
     (Inr (), w\<lparr>store := (store w)(df := set_column col s (store w df))\<rparr>))"

subsection \<open>Datetime accessors, comparison, binning and the cast to int8\<close>

text \<open>
  The civil date of a day number (days since 1970-01-01, proleptic Gregorian
  calendar), and the fields \<^verbatim>\<open>.dt\<close> reads off a timestamp in nanoseconds.
  \<^verbatim>\<open>dayofweek\<close> counts from Monday = 0; 1970-01-01 was a Thursday.
\<close>

definition civil :: "int \<Rightarrow> int \<times> int \<times> int" where
  "civil days =
     (let z = days + 719468;
          era = z div 146097;
          doe = z - era * 146097;
          yoe = (doe - doe div 1460 + doe div 36524 - doe div 146096) div 365;
          doy = doe - (365 * yoe + yoe div 4 - yoe div 100);
          mp = (5 * doy + 2) div 153;
          d = doy - (153 * mp + 2) div 5 + 1;
          m = (if mp < 10 then mp + 3 else mp - 9);
          y = yoe + era * 400
      in (if m \<le> 2 then y + 1 else y, m, d))"

definition day_number :: "int \<Rightarrow> int" where
  "day_number t = t div 86400000000000"

definition year :: "int \<Rightarrow> int" where
  "year t = fst (civil (day_number t))"

definition month :: "int \<Rightarrow> int" where
  "month t = fst (snd (civil (day_number t)))"

definition day :: "int \<Rightarrow> int" where
  "day t = snd (snd (civil (day_number t)))"

definition dayofweek :: "int \<Rightarrow> int" where
  "dayofweek t = (day_number t + 3) mod 7"

definition hour :: "int \<Rightarrow> int" where
  "hour t = (t div 3600000000000) mod 24"

text \<open>
  \<^verbatim>\<open>s.dt.field\<close>: only a datetime column has the accessor; a missing timestamp
  gives a missing number, and the column is then \<^verbatim>\<open>float64\<close> instead of \<^verbatim>\<open>int32\<close>.
\<close>

definition dt :: "(int \<Rightarrow> int) \<Rightarrow> series \<Rightarrow> error + series" where
  "dt field s =
     (if dtype s \<noteq> DDatetime64 then Inl AttributeError
      else let d = (if list_all is_VTimestamp (cells s) then DInt32 else DFloat64)
           in Inr \<lparr>dtype = d,
                   cells = map (\<lambda>v. case v of VTimestamp t \<Rightarrow> cell_of d (VInt (field t))
                                              | _ \<Rightarrow> VNone)
                             (cells s)\<rparr>)"

text \<open>\<^verbatim>\<open>s >= k\<close>, cell by cell: a missing number compares false.\<close>

fun ge_cell :: "int \<Rightarrow> val \<Rightarrow> error + val" where
  "ge_cell k (VInt a) = Inr (VBool (k \<le> a))"
| "ge_cell k (VFloat x) = Inr (VBool (of_int k \<le> x))"
| "ge_cell k (VBool b) = Inr (VBool (k \<le> (if b then 1 else 0)))"
| "ge_cell k VNone = Inr (VBool False)"
| "ge_cell k v = Inl TypeError"

definition series_ge :: "series \<Rightarrow> int \<Rightarrow> error + series" where
  "series_ge s k =
     ebind (traverse (ge_cell k) (cells s)) (\<lambda>vs. Inr \<lparr>dtype = DBool, cells = vs\<rparr>)"

text \<open>
  \<^verbatim>\<open>pd.cut(s, bins, labels)\<close> with right-closed bins: the label of the first bin
  \<open>(lo, hi]\<close> that holds the number, a missing cell outside all bins.
\<close>

fun cut_label :: "real list \<Rightarrow> int list \<Rightarrow> real \<Rightarrow> int option" where
  "cut_label (lo # hi # bins) (l # labels) x =
     (if lo < x \<and> x \<le> hi then Some l else cut_label (hi # bins) labels x)"
| "cut_label bins labels x = None"

fun cut_cell :: "int list \<Rightarrow> int list \<Rightarrow> val \<Rightarrow> error + val" where
  "cut_cell bins labels (VInt a) =
     Inr (case cut_label (map of_int bins) labels (of_int a) of
            None \<Rightarrow> VNone | Some l \<Rightarrow> VInt l)"
| "cut_cell bins labels (VFloat x) =
     Inr (case cut_label (map of_int bins) labels x of None \<Rightarrow> VNone | Some l \<Rightarrow> VInt l)"
| "cut_cell bins labels VNone = Inr VNone"
| "cut_cell bins labels v = Inl TypeError"

definition pd_cut :: "series \<Rightarrow> int list \<Rightarrow> int list \<Rightarrow> error + series" where
  "pd_cut s bins labels =
     ebind (traverse (cut_cell bins labels) (cells s))
       (\<lambda>vs. Inr \<lparr>dtype = DCategory, cells = vs\<rparr>)"

text \<open>
  \<^verbatim>\<open>s.astype("int8")\<close>: a bool is 0 or 1, an integer wraps to 8 bits, a missing
  cell is a ValueError (``cannot convert float NaN to integer'').
\<close>

definition wrap8 :: "int \<Rightarrow> int" where
  "wrap8 a = (a + 128) mod 256 - 128"

fun int8_cell :: "val \<Rightarrow> error + val" where
  "int8_cell (VBool b) = Inr (VInt (if b then 1 else 0))"
| "int8_cell (VInt a) = Inr (VInt (wrap8 a))"
| "int8_cell (VFloat x) = Inr (VInt (wrap8 (if x < 0 then \<lceil>x\<rceil> else \<lfloor>x\<rfloor>)))"
| "int8_cell VNone = Inl ValueError"
| "int8_cell (VStr s) = Inl ValueError"
| "int8_cell (VTimestamp t) = Inl TypeError"

definition astype_int8 :: "series \<Rightarrow> error + series" where
  "astype_int8 s =
     ebind (traverse int8_cell (cells s)) (\<lambda>vs. Inr \<lparr>dtype = DInt8, cells = vs\<rparr>)"

subsection \<open>noshows_data_preprocessing\<close>

text \<open>One assignment \<^verbatim>\<open>df[name] = expr(df[col])\<close> of the loop body.\<close>

definition assign ::
  "nat \<Rightarrow> string \<Rightarrow> (series \<Rightarrow> error + series) \<Rightarrow> string \<Rightarrow> (world, unit) py" where
  "assign df name expr col =
     bnd (df_getitem df col) (\<lambda>s. bnd (lift (expr s)) (\<lambda>v. df_setitem df name v))"

definition is_weekend :: "series \<Rightarrow> error + series" where
  "is_weekend s = ebind (dt dayofweek s) (\<lambda>dow. ebind (series_ge dow 5) astype_int8)"

definition part_of_day :: "series \<Rightarrow> error + series" where
  "part_of_day s =
     ebind (dt hour s) (\<lambda>h. ebind (pd_cut h [-1, 6, 12, 17, 24] [0, 1, 2, 3]) astype_int8)"

definition date_features :: "nat \<Rightarrow> string \<Rightarrow> (world, unit) py" where
  "date_features df col =
     bnd (assign df (col @ ''_year'') (dt year) col) (\<lambda>_.
     bnd (assign df (col @ ''_month'') (dt month) col) (\<lambda>_.
     bnd (assign df (col @ ''_day'') (dt day) col) (\<lambda>_.
     bnd (assign df (col @ ''_dow'') (dt dayofweek) col) (\<lambda>_.
     bnd (assign df (col @ ''_hour'') (dt hour) col) (\<lambda>_.
     bnd (assign df (col @ ''_is_weekend'') is_weekend col) (\<lambda>_.
     assign df (col @ ''_part_of_day'') part_of_day col))))))"

fun for_each :: "('a \<Rightarrow> ('s, unit) py) \<Rightarrow> 'a list \<Rightarrow> ('s, unit) py" where
  "for_each body [] = ret ()"
| "for_each body (x # xs) = bnd (body x) (\<lambda>_. for_each body xs)"

definition date_cols :: "string list" where
  "date_cols = [''scheduledday'', ''appointmentday'']"

text \<open>The function returns the reference of the new frame \<open>X\<close> and the series \<open>y\<close>.\<close>

definition noshows_data_preprocessing :: "conversion \<Rightarrow> nat \<Rightarrow> (world, nat \<times> series) py" where
  "noshows_data_preprocessing P df =
     bnd (df_drop [''appointmentid'', ''patientid''] df) (\<lambda>df1.
     bnd (df_astype P [(''gender'', Category), (''neighbourhood'', Category),
                       (''scheduledday'', Datetime64), (''appointmentday'', Datetime64)] df1)
       (\<lambda>df2.
     bnd (for_each (date_features df2) date_cols) (\<lambda>_.
     bnd (df_drop date_cols df2) (\<lambda>df3.
     bnd (df_drop [''gender'', ''neighbourhood''] df3) (\<lambda>df4.
     bnd (df_getitem df4 ''showed_up'') (\<lambda>y.
     bnd (df_drop [''showed_up''] df4) (\<lambda>X.
     ret (X, y))))))))"

subsection \<open>The model, the inference pipeline and the timing decorator\<close>

text \<open>
  LightGBM is a parameter: \<open>Booster\<close> loads the model file at a path, \<open>predict\<close> is
  the method of the loaded booster, applied to a frame.
\<close>

record ('b, 'p) lightgbm =
  Booster :: "string \<Rightarrow> error + 'b"
  predict :: "'b \<Rightarrow> frame \<Rightarrow> error + 'p"

definition load_lightgbm_model :: "('b, 'p) lightgbm \<Rightarrow> string \<Rightarrow> (world, 'b) py" where
  "load_lightgbm_model lgb model_path = lift (Booster lgb model_path)"

definition model_inference :: "('b, 'p) lightgbm \<Rightarrow> 'b \<Rightarrow> nat \<Rightarrow> (world, 'p) py" where
  "model_inference lgb model X = (\<lambda>w. (predict lgb model (store w X), w))"

definition measure_time_decorator ::
  "('a \<Rightarrow> (world, 'r) py) \<Rightarrow> ('a \<Rightarrow> (world, 'r \<times> pyfloat) py)" where
  "measure_time_decorator func = (\<lambda>args.
     bnd time_time (\<lambda>start_time.
     bnd (func args) (\<lambda>result.
     bnd time_time (\<lambda>end_time.
     ret (result, float_sub end_time start_time)))))"

text \<open>The function as written, before the decorator wraps it.\<close>

definition inference_pipeline_wrapped ::
  "('b, 'p) lightgbm \<Rightarrow> conversion \<Rightarrow> string \<times> nat \<Rightarrow> (world, 'p) py" where
  "inference_pipeline_wrapped lgb P = (\<lambda>(model_path, df).
     bnd (load_lightgbm_model lgb model_path) (\<lambda>model.
     bnd (noshows_data_preprocessing P df) (\<lambda>(X, _).
     bnd (model_inference lgb model X) (\<lambda>y_pred.
     ret y_pred))))"

definition inference_pipeline ::
  "('b, 'p) lightgbm \<Rightarrow> conversion \<Rightarrow> string \<times> nat \<Rightarrow> (world, 'p \<times> pyfloat) py" where
  "inference_pipeline lgb P = measure_time_decorator (inference_pipeline_wrapped lgb P)"

section \<open>The stored appointments and the three access paths\<close>

text \<open>
  The table \<^verbatim>\<open>MockPackage.NoShowsAppointments\<close>: its fifteen columns in storage order.
  A stored record is the list of its column values in that order, a \<^verbatim>\<open>NULL\<close> being
  \<open>VNone\<close>; \<^verbatim>\<open>age\<close> is the sixth column.
\<close>

definition schema :: "string list" where
  "schema =
     [''patientid'', ''appointmentid'', ''gender'', ''scheduledday'',
      ''appointmentday'', ''age'', ''neighbourhood'', ''scholarship'',
      ''hipertension'', ''diabetes'', ''alcoholism'', ''handcap'',
      ''sms_received'', ''showed_up'', ''date_diff'']"

definition table_name :: string where
  "table_name = ''MockPackage.NoShowsAppointments''"

definition appointment_record :: "val list \<Rightarrow> bool" where
  "appointment_record r \<longleftrightarrow> length r = length schema"

definition integer_age :: "val list \<Rightarrow> bool" where
  "integer_age r \<longleftrightarrow> is_VInt (r ! 5)"

text \<open>The record has an age, and it is at least \<open>lower_age\<close>.\<close>

definition old_enough :: "int \<Rightarrow> val list \<Rightarrow> bool" where
  "old_enough lower_age r = (case r ! 5 of VInt a \<Rightarrow> lower_age \<le> a | _ \<Rightarrow> False)"

definition matching :: "int \<Rightarrow> val list list \<Rightarrow> val list list" where
  "matching lower_age rs = filter (old_enough lower_age) rs"

subsection \<open>The SQL engine\<close>

text \<open>
  What the engine does with a statement of the shape
  \<^verbatim>\<open>SELECT c1, ..., ck FROM t WHERE c op n\<close>, read off its text: the rows of the table
  whose column \<open>c\<close> compares to the integer \<open>n\<close> as \<open>op\<close> says (a \<^verbatim>\<open>NULL\<close> never does),
  in storage order, each cut to the selected columns.  Any other text, an unknown
  table and an unknown column are errors of the engine.
\<close>

fun strip_prefix :: "string \<Rightarrow> string \<Rightarrow> string option" where
  "strip_prefix [] s = Some s"
| "strip_prefix (p # ps) [] = None"
| "strip_prefix (p # ps) (c # cs) = (if p = c then strip_prefix ps cs else None)"

text \<open>The text before and the text after the first occurrence of a separator.\<close>

fun split_at :: "string \<Rightarrow> string \<Rightarrow> (string \<times> string) option" where
  "split_at sep [] = None"
| "split_at sep (c # cs) =
     (case strip_prefix sep (c # cs) of
        Some rest \<Rightarrow> Some ([], rest)
      | None \<Rightarrow> map_option (\<lambda>(a, b). (c # a, b)) (split_at sep cs))"

fun split_commas :: "string \<Rightarrow> string \<Rightarrow> string list" where
  "split_commas w [] = [w]"
| "split_commas w (c # cs) =
     (if c = CHR '','' then w # split_commas [] cs else split_commas (w @ [c]) cs)"

definition select_list :: "string \<Rightarrow> string list" where
  "select_list s = map (dropWhile (\<lambda>c. c = CHR '' '')) (split_commas [] s)"

definition digit_of :: "char \<Rightarrow> nat option" where
  "digit_of c = map_of (zip ''0123456789'' [0 ..< 10]) c"

fun parse_digits :: "string \<Rightarrow> nat \<Rightarrow> nat option" where
  "parse_digits [] acc = Some acc"
| "parse_digits (c # cs) acc =
     (case digit_of c of None \<Rightarrow> None | Some d \<Rightarrow> parse_digits cs (10 * acc + d))"

definition parse_nat :: "string \<Rightarrow> nat option" where
  "parse_nat s = (if s = [] then None else parse_digits s 0)"

definition parse_int :: "string \<Rightarrow> int option" where
  "parse_int s =
     (case s of
        [] \<Rightarrow> None
      | c # cs \<Rightarrow>
          if c = CHR ''-'' then map_option (\<lambda>n. - int n) (parse_nat cs)
          else map_option int (parse_nat s))"

datatype comparison = Ge | Gt | Le | Lt | Eq | Ne

definition comparison_of :: "string \<Rightarrow> comparison option" where
  "comparison_of s =
     map_of [(''>='', Ge), (''>'', Gt), (''<='', Le), (''<'', Lt), (''='', Eq), (''<>'', Ne)] s"

fun compares :: "comparison \<Rightarrow> 'a::linorder \<Rightarrow> 'a \<Rightarrow> bool" where
  "compares Ge a b = (b \<le> a)"
| "compares Gt a b = (b < a)"
| "compares Le a b = (a \<le> b)"
| "compares Lt a b = (a < b)"
| "compares Eq a b = (a = b)"
| "compares Ne a b = (a \<noteq> b)"

definition sql_holds :: "comparison \<Rightarrow> val \<Rightarrow> int \<Rightarrow> bool" where
  "sql_holds op v n =
     (case v of
        VInt a \<Rightarrow> compares op a n
      | VFloat x \<Rightarrow> compares op x (of_int n)
      | _ \<Rightarrow> False)"

fun position :: "'a list \<Rightarrow> 'a \<Rightarrow> nat option" where
  "position [] x = None"
| "position (y # ys) x = (if y = x then Some 0 else map_option Suc (position ys x))"

definition run_select :: "string list \<Rightarrow> val list list \<Rightarrow> string \<Rightarrow> error + val list list" where
  "run_select sch rs q =
     (case strip_prefix ''SELECT '' q of
        None \<Rightarrow> Inl (External ''SQLCODE -1'')
      | Some q1 \<Rightarrow>
     (case split_at '' FROM '' q1 of
        None \<Rightarrow> Inl (External ''SQLCODE -1'')
      | Some (sel, q2) \<Rightarrow>
     (case split_at '' WHERE '' q2 of
        None \<Rightarrow> Inl (External ''SQLCODE -1'')
      | Some (tab, cond) \<Rightarrow>
     (case split_at '' '' cond of
        None \<Rightarrow> Inl (External ''SQLCODE -1'')
      | Some (c, cond1) \<Rightarrow>
     (case split_at '' '' cond1 of
        None \<Rightarrow> Inl (External ''SQLCODE -1'')
      | Some (op, num) \<Rightarrow>
          if tab \<noteq> table_name then Inl (External ''SQLCODE -30'')
          else
            (case (those (map (position sch) (select_list sel)), position sch c,
                   comparison_of op, parse_int num) of
               (Some js, Some k, Some cmp, Some n) \<Rightarrow>
                 Inr (map (\<lambda>r. map (\<lambda>j. r ! j) js) (filter (\<lambda>r. sql_holds cmp (r ! k) n) rs))
             | _ \<Rightarrow> Inl (External ''SQLCODE -29'')))))))"

text \<open>
  The engine runs a statement the way \<open>run_select\<close> reads it, over the stored records
  \<open>rs\<close> in storage order, and a SELECT leaves the database as it is.
\<close>

definition sql_engine :: "'db iris \<Rightarrow> 'db \<Rightarrow> val list list \<Rightarrow> bool" where
  "sql_engine api db rs \<longleftrightarrow> (\<forall>q. sql_execute api q db = (run_select schema rs q, db))"

subsection \<open>The global\<close>

text \<open>
  The global \<^verbatim>\<open>^vCVc.Dvei.1\<close> holds the records \<open>stored\<close>, each under its key, as a
  \<^verbatim>\<open>$List\<close> that \<^verbatim>\<open>ToList\<close> turns into the Python list of the record's values; the key
  iterator yields the keys in their order and ends.
\<close>

definition global_store :: "'db iris \<Rightarrow> 'db \<Rightarrow> (key \<times> val list) list \<Rightarrow> bool" where
  "global_store api db stored \<longleftrightarrow>
     gref_keys api gname db = (map fst stored, None) \<and>
     list_all (\<lambda>(k, r). \<exists>raw_val. gref_get api gname k db = Inr raw_val
                           \<and> ToList api raw_val = Inr r) stored"

subsection \<open>The class method\<close>

text \<open>
  A collection holds objects either from index 0 (a dynamic array, whose \<^verbatim>\<open>%Get\<close>
  past the last element is the empty string) or from index 1 (a list collection, whose
  index 0 is empty).
\<close>

definition zero_based :: "iris_obj list \<Rightarrow> collection" where
  "zero_based xs =
     \<lparr>Size = Inr (length xs), Get = (\<lambda>i. Inr (if i < length xs then xs ! i else EmptyStr))\<rparr>"

definition one_based :: "iris_obj list \<Rightarrow> collection" where
  "one_based xs =
     \<lparr>Size = Inr (length xs),
      Get = (\<lambda>i. Inr (if 1 \<le> i \<and> i \<le> length xs then xs ! (i - 1) else EmptyStr))\<rparr>"

text \<open>
  The object serialises to a JSON text that decodes to the record's dict: the fifteen
  column names as keys, in storage order.
\<close>

definition serialises :: "'db iris \<Rightarrow> iris_obj \<Rightarrow> val list \<Rightarrow> bool" where
  "serialises api obj r \<longleftrightarrow>
     (\<exists>s. obj = IrisObject (Inr s) \<and> json_loads api s = Inr (zip schema r))"

definition exposes :: "'db iris \<Rightarrow> collection \<Rightarrow> val list list \<Rightarrow> bool" where
  "exposes api rows rs \<longleftrightarrow>
     (\<exists>objs. list_all2 (serialises api) objs rs \<and>
        (rows = zero_based objs \<or> rows = one_based objs))"

text \<open>
  Modelled from the spec: the class method \<^verbatim>\<open>MockPackage.MockInference.DynamicSQL\<close>,
  ObjectScript code that is not among the source files.  By the spec it is the
  ``dynamic query procedure'' that returns the ``appointment records filtered by a
  minimum age'': called with \<open>lower_age\<close> over the stored records \<open>rs\<close> it returns a
  collection of one object for each record with an age of at least \<open>lower_age\<close>, in
  storage order, and leaves the database as it is.
\<close>

definition class_method :: "'db iris \<Rightarrow> 'db \<Rightarrow> val list list \<Rightarrow> int \<Rightarrow> bool" where
  "class_method api db rs lower_age \<longleftrightarrow>
     (\<exists>rows. DynamicSQL api lower_age db = (Inr rows, db)
             \<and> exposes api rows (matching lower_age rs))"

subsection \<open>An example database\<close>

text \<open>
  Stored appointments of patients aged 62, 8 and 30, and an interface over the
  records \<open>recs\<close>: the SQL engine reads the statement, the class method answers for
  the minimum age \<open>n\<close>, a raw value is named by the text of its key and a JSON text by
  the text of the patient id.
\<close>

definition appt :: "int \<Rightarrow> int \<Rightarrow> string \<Rightarrow> val list" where
  "appt pid a scheduled =
     [VInt pid, VInt (5642000 + pid), VStr ''F'', VStr scheduled, VStr ''2016-04-29 00:00:00'',
      VInt a, VStr ''JARDIM DA PENHA'', VInt 0, VInt 1, VInt 0, VInt 0, VInt 0, VInt 0,
      VInt 1, VInt 0]"

definition stored3 :: "(key \<times> val list) list" where
  "stored3 =
     [([VInt 1], appt 1 62 ''2016-04-29 18:38:08''),
      ([VInt 2], appt 2 8 ''2016-04-29 16:08:27''),
      ([VInt 3], appt 3 30 ''2016-04-30 07:40:56'')]"

definition json_text :: "val list \<Rightarrow> string" where
  "json_text r = (case hd r of VInt pid \<Rightarrow> ''json'' @ str_int pid | _ \<Rightarrow> [])"

definition key_text :: "key \<Rightarrow> raw" where
  "key_text k = (case hd k of VInt i \<Rightarrow> ''$lb'' @ str_int i | _ \<Rightarrow> [])"

definition mock_over :: "(key \<times> val list) list \<Rightarrow> int \<Rightarrow> ((key \<times> val list) list) iris" where
  "mock_over recs n =
     \<lparr>DynamicSQL = (\<lambda>lower_age db.
        (if lower_age = n
         then Inr (zero_based (map (\<lambda>r. IrisObject (Inr (json_text r)))
                                 (matching n (map snd db))))
         else Inl (External ''SQLCODE''), db)),
      sql_execute = (\<lambda>q db. (run_select schema (map snd db) q, db)),
      gref_keys = (\<lambda>g db. (if g = gname then map fst db else [], None)),
      gref_get = (\<lambda>g k db.
        if g = gname \<and> k \<in> set (map fst db) then Inr (key_text k)
        else Inl (External ''undefined'')),
      ToList = (\<lambda>raw_val.
        case map_of (map (\<lambda>(k, r). (key_text k, r)) recs) raw_val of
          Some r \<Rightarrow> Inr r | None \<Rightarrow> Inl (External ''not a list'')),
      json_loads = (\<lambda>s.
        case map_of (map (\<lambda>(k, r). (json_text r, zip schema r)) recs) s of
          Some d \<Rightarrow> Inr d | None \<Rightarrow> Inl (External ''JSONDecodeError''))\<rparr>"

definition mock_iris :: "int \<Rightarrow> ((key \<times> val list) list) iris" where
  "mock_iris n = mock_over stored3 n"


subsection \<open>What the claims say about the query functions\<close>





section \<open>Frames the preprocessing accepts\<close>

text \<open>
  The input has exactly the fifteen expected columns, in any order.
\<close>

definition expected_columns :: "frame \<Rightarrow> bool" where
  "expected_columns f \<longleftrightarrow> distinct (names f) \<and> set (names f) = set columns"

text \<open>
  The cells of the date column \<open>col\<close> convert to the timestamps \<open>ts\<close>, none of them
  missing.
\<close>

definition converts :: "conversion \<Rightarrow> frame \<Rightarrow> string \<Rightarrow> int list \<Rightarrow> bool" where
  "converts P f col ts \<longleftrightarrow>
     (\<exists>s. map_of (cols f) col = Some s \<and>
          traverse (to_datetime P (cells s)) (cells s) = Inr (map VTimestamp ts))"

text \<open>The seven columns the function drops, and the eight it passes through.\<close>

definition dropped :: "string list" where
  "dropped = [''appointmentid'', ''patientid'', ''scheduledday'', ''appointmentday'',
              ''gender'', ''neighbourhood'', ''showed_up'']"

definition passthrough :: "string list" where
  "passthrough = [''age'', ''scholarship'', ''hipertension'', ''diabetes'', ''alcoholism'',
                  ''handcap'', ''sms_received'', ''date_diff'']"

text \<open>The names of the seven columns derived from a date column, and the columns of \<open>X\<close>.\<close>

definition derived :: "string \<Rightarrow> string list" where
  "derived col = map (\<lambda>suffix. col @ suffix)
     [''_year'', ''_month'', ''_day'', ''_dow'', ''_hour'', ''_is_weekend'', ''_part_of_day'']"

definition feature_columns :: "string list" where
  "feature_columns = passthrough @ derived ''scheduledday'' @ derived ''appointmentday''"

text \<open>The dtypes pandas calls numeric: the integers, the floats and bool.\<close>

definition numeric :: "dtype \<Rightarrow> bool" where
  "numeric d \<longleftrightarrow> d \<in> {DBool, DInt8, DInt32, DInt64, DUInt64, DFloat64}"

text \<open>
  The label \<^verbatim>\<open>pd.cut\<close> gives an hour of the day with the bins of the code, and the
  seven columns the loop body appends for a date column whose timestamps are \<open>ts\<close>.
\<close>

definition hour_bin :: "int \<Rightarrow> int" where
  "hour_bin h = (if h \<le> 6 then 0 else if h \<le> 12 then 1 else if h \<le> 17 then 2 else 3)"

definition features :: "string \<Rightarrow> int list \<Rightarrow> (string \<times> series) list" where
  "features col ts =
     [(col @ ''_year'', \<lparr>dtype = DInt32, cells = map (\<lambda>t. VInt (year t)) ts\<rparr>),
      (col @ ''_month'', \<lparr>dtype = DInt32, cells = map (\<lambda>t. VInt (month t)) ts\<rparr>),
      (col @ ''_day'', \<lparr>dtype = DInt32, cells = map (\<lambda>t. VInt (day t)) ts\<rparr>),
      (col @ ''_dow'', \<lparr>dtype = DInt32, cells = map (\<lambda>t. VInt (dayofweek t)) ts\<rparr>),
      (col @ ''_hour'', \<lparr>dtype = DInt32, cells = map (\<lambda>t. VInt (hour t)) ts\<rparr>),
      (col @ ''_is_weekend'',
         \<lparr>dtype = DInt8, cells = map (\<lambda>t. VInt (if 5 \<le> dayofweek t then 1 else 0)) ts\<rparr>),
      (col @ ''_part_of_day'',
         \<lparr>dtype = DInt8, cells = map (\<lambda>t. VInt (hour_bin (hour t))) ts\<rparr>)]"

text \<open>Auxiliary notions of the proofs: the dtype mapping of the code, a column after
  \<^verbatim>\<open>astype\<close>, the precondition of a successful run, and the invariant that a call
  leaves the first \<open>n\<close> objects of the store and the clock alone.\<close>

definition astype_mapping :: "(string \<times> target) list" where
  "astype_mapping = [(''gender'', Category), (''neighbourhood'', Category),
                       (''scheduledday'', Datetime64), (''appointmentday'', Datetime64)]"

definition converted :: "int list \<Rightarrow> int list \<Rightarrow> string \<Rightarrow> series \<Rightarrow> series" where
  "converted ts1 ts2 c s =
     (if c = ''scheduledday'' then \<lparr>dtype = DDatetime64, cells = map VTimestamp ts1\<rparr>
      else if c = ''appointmentday'' then \<lparr>dtype = DDatetime64, cells = map VTimestamp ts2\<rparr>
      else if c = ''gender'' \<or> c = ''neighbourhood'' then s\<lparr>dtype := DCategory\<rparr>
      else s)"

definition prepared :: "conversion \<Rightarrow> frame \<Rightarrow> int list \<Rightarrow> int list \<Rightarrow> bool" where
  "prepared P f ts1 ts2 \<longleftrightarrow>
     distinct (names f) \<and> set dropped \<subseteq> set (names f) \<and>
     set (map fst (features ''scheduledday'' ts1 @ features ''appointmentday'' ts2))
       \<inter> set (names f) = {} \<and>
     converts P f ''scheduledday'' ts1 \<and> converts P f ''appointmentday'' ts2"

definition keeps :: "nat \<Rightarrow> (world, 'a) py \<Rightarrow> ('a \<Rightarrow> bool) \<Rightarrow> bool" where
  "keeps n m Q \<longleftrightarrow>
     (\<forall>w. n \<le> next_ref w \<longrightarrow>
        (case m w of (r, w') \<Rightarrow>
           n \<le> next_ref w' \<and> (\<forall>i<n. store w' i = store w i) \<and>
           clock w' = clock w \<and> ticks w' = ticks w \<and>
           (case r of Inl e \<Rightarrow> True | Inr x \<Rightarrow> Q x)))"

subsection \<open>Example frames\<close>

text \<open>
  A conversion that knows the four dates of the examples, the frame pandas builds from
  a list of rows, and a store that holds one frame at reference 0.  \<open>frame2\<close> holds
  two complete appointments; \<open>frame_undated\<close> one whose scheduling date is missing;
  \<open>frame_no_diff\<close> one whose \<^verbatim>\<open>date_diff\<close> is missing.
\<close>

definition parse_example :: conversion where
  "parse_example column v =
     (case v of
        VStr s \<Rightarrow>
          (case map_of [(''2016-04-29 18:38:08'', 1461955088000000000),
                        (''2016-04-30 07:40:56'', 1462002056000000000),
                        (''2016-04-29 00:00:00'', 1461888000000000000),
                        (''2016-04-29 16:08:27'', 1461946107000000000)] s of
             Some t \<Rightarrow> Inr (Some t)
           | None \<Rightarrow> Inl ValueError)
      | VInt n \<Rightarrow> Inr (Some n)
      | _ \<Rightarrow> Inl TypeError)"

definition example_frame :: "val list list \<Rightarrow> frame" where
  "example_frame data =
     (case DataFrame_rows data columns of Inr f \<Rightarrow> f | Inl e \<Rightarrow> \<lparr>cols = [], nrows = 0\<rparr>)"

definition world_of :: "frame \<Rightarrow> world" where
  "world_of f =
     \<lparr>store = (\<lambda>_. \<lparr>cols = [], nrows = 0\<rparr>)(0 := f), next_ref = 1,
      clock = (\<lambda>n. Finite (100 + 2 * int n) 0), ticks = 0\<rparr>"

definition frame2 :: frame where
  "frame2 = example_frame [appt 1 62 ''2016-04-29 18:38:08'', appt 3 30 ''2016-04-30 07:40:56'']"

definition frame_undated :: frame where
  "frame_undated = example_frame [(appt 4 45 ''2016-04-29 16:08:27'')[3 := VNone]]"

definition frame_no_diff :: frame where
  "frame_no_diff = example_frame [(appt 4 45 ''2016-04-29 16:08:27'')[14 := VNone]]"

subsection \<open>An example model and a clock that is set back\<close>

text \<open>
  A stand-in for LightGBM that loads one model file and predicts one half for every
  row, and the store of \<open>frame2\<close> with a system clock that reads 10 and then 5.
\<close>

definition mock_lgb :: "(unit, real list) lightgbm" where
  "mock_lgb =
     \<lparr>Booster = (\<lambda>p. if p = ''model.txt'' then Inr ()
                     else Inl (External ''cannot open model file'')),
      predict = (\<lambda>b f. Inr (replicate (nrows f) (1 / 2)))\<rparr>"

definition world_back :: world where
  "world_back = (world_of frame2)\<lparr>clock := (\<lambda>n. Finite (10 - 5 * int n) 0)\<rparr>"

section \<open>Properties of the query functions\<close>

lemmas mock_defs =
  mock_iris_def mock_over_def matching_def old_enough_def stored3_def appt_def key_text_def
  json_text_def zero_based_def str_int_def str_nat.simps gname_def

lemma list_index_age: "list_index columns ''age'' = Inr 5"
  by (simp add: columns_def ebind_def)

subsection \<open>The text of the SELECT statement\<close>

lemma digit_of_nth: "k < 10 \<Longrightarrow> digit_of (''0123456789'' ! k) = Some k"
proof -
  assume "k < 10"
  then have "k \<in> set [0 ..< 10]" by simp
  then show ?thesis unfolding upt_rec [of 0] by (auto simp: digit_of_def upt_rec)
qed

lemma parse_digits_snoc:
  "parse_digits (s @ [c]) acc =
     (case parse_digits s acc of None \<Rightarrow> None
      | Some m \<Rightarrow> (case digit_of c of None \<Rightarrow> None | Some d \<Rightarrow> Some (10 * m + d)))"
  by (induction s arbitrary: acc) (auto split: option.splits)

lemma parse_digits_str_nat: "parse_digits (str_nat n) 0 = Some n"
proof (induction n rule: str_nat.induct)
  case (1 n)
  show ?case
  proof (cases "n < 10")
    case True
    then show ?thesis by (subst str_nat.simps) (simp add: digit_of_nth)
  next
    case False
    with 1 have "parse_digits (str_nat (n div 10)) 0 = Some (n div 10)" by simp
    with False show ?thesis
      by (subst str_nat.simps) (simp add: parse_digits_snoc digit_of_nth)
  qed
qed

lemma str_nat_digits: "set (str_nat n) \<subseteq> set ''0123456789''"
proof (induction n rule: str_nat.induct)
  case (1 n)
  have d: "k < 10 \<Longrightarrow> ''0123456789'' ! k \<in> set ''0123456789''" for k
    by (rule nth_mem) simp
  show ?case
  proof (cases "n < 10")
    case True
    with d[of n] show ?thesis by (subst str_nat.simps) simp
  next
    case False
    with 1 d[of "n mod 10"] show ?thesis by (subst str_nat.simps) simp
  qed
qed

lemma str_nat_nonempty: "str_nat n \<noteq> []"
  by (subst str_nat.simps) simp

lemma parse_nat_str_nat: "parse_nat (str_nat n) = Some n"
  by (simp add: parse_nat_def str_nat_nonempty parse_digits_str_nat)

lemma parse_int_str_int: "parse_int (str_int i) = Some i"
proof (cases "i < 0")
  case True
  then show ?thesis by (simp add: parse_int_def str_int_def parse_nat_str_nat)
next
  case False
  obtain c cs where s: "str_nat (nat i) = c # cs"
    using str_nat_nonempty[of "nat i"] by (cases "str_nat (nat i)") auto
  with str_nat_digits[of "nat i"] have "c \<noteq> CHR ''-''" by auto
  with False s parse_nat_str_nat[of "nat i"] show ?thesis
    by (simp add: parse_int_def str_int_def)
qed

lemma select_list_columns: "select_list (str_join '', '' columns) = schema"
  by (simp add: select_list_def columns_def schema_def)

lemma positions_schema: "those (map (position schema) schema) = Some [0 ..< 15]"
  by (simp add: schema_def upt_rec)

lemma run_select_query:
  "run_select schema rs (query n) =
     Inr (map (\<lambda>r. map (\<lambda>j. r ! j) [0 ..< 15]) (filter (\<lambda>r. sql_holds Ge (r ! 5) n) rs))"
proof -
  have q: "query n = ''SELECT '' @ str_join '', '' columns @ '' FROM '' @ table_name
             @ '' WHERE age >= '' @ str_int n"
    by (simp add: query_def table_name_def)
  have 1: "strip_prefix ''SELECT '' (query n) = Some (str_join '', '' columns @ '' FROM '' @ table_name
             @ '' WHERE age >= '' @ str_int n)"
    unfolding q by simp
  have 2: "split_at '' FROM '' (str_join '', '' columns @ '' FROM '' @ table_name
             @ '' WHERE age >= '' @ str_int n) = Some (str_join '', '' columns, table_name @ '' WHERE age >= '' @ str_int n)"
    by (simp add: columns_def)
  have 3: "split_at '' WHERE '' (table_name @ '' WHERE age >= '' @ str_int n)
      = Some (table_name, ''age >= '' @ str_int n)"
    by (simp add: table_name_def)
  have 4: "split_at '' '' (''age >= '' @ str_int n) = Some (''age'', ''>= '' @ str_int n)"
    by simp
  have 5: "split_at '' '' (''>= '' @ str_int n) = Some (''>='', str_int n)"
    by simp
  have 6: "position schema ''age'' = Some 5" by (simp add: schema_def)
  have 7: "comparison_of ''>='' = Some Ge" by (simp add: comparison_of_def)
  show ?thesis
    by (simp only: run_select_def 1 2 3 4 5 option.case prod.case)
       (simp add: 6 7 select_list_columns positions_schema parse_int_str_int)
qed

subsection \<open>No matching record\<close>

lemma rows_loop_blank:
  "\<forall>i\<in>set js. Get rows i = Inr PyNone \<or> Get rows i = Inr EmptyStr \<Longrightarrow>
   rows_loop api rows js acc = Inr acc"
  by (induction js arbitrary: acc) (auto simp: ebind_def)

lemma global_loop_none:
  "\<forall>key\<in>set keys. \<exists>raw_val python_list v.
      gref_get api gname key db = Inr raw_val \<and> ToList api raw_val = Inr python_list \<and>
      py_index python_list idx = Inr v \<and> py_ge v n = Inr False \<Longrightarrow>
   global_loop api db n idx keys acc = Inr acc"
  by (induction keys arbitrary: acc) (auto simp: ebind_def)

text \<open>
  Claim C9.  When no record matches, \<open>iris_sql_query\<close> (the statement yields no row)
  and \<open>iris_global_query\<close> (every stored list fails the age test) return a frame
  without rows whose columns are the fifteen names in their fixed order, and
  \<open>dynamic_sql_query\<close> (every element of the collection is \<^verbatim>\<open>None\<close> or empty) returns
  a frame without rows and without columns.
\<close>

theorem empty_result_columns:
  "(sql_execute api (query lower_age) db = (Inr [], db1) \<longrightarrow>
      (\<exists>f. iris_sql_query api lower_age db = (Inr f, db1)
           \<and> names f = columns \<and> nrows f = 0)) \<and>
   (gref_keys api gname db = (keys, None) \<and>
    (\<forall>key\<in>set keys. \<exists>raw_val python_list v.
        gref_get api gname key db = Inr raw_val \<and> ToList api raw_val = Inr python_list \<and>
        py_index python_list 5 = Inr v \<and> py_ge v lower_age = Inr False) \<longrightarrow>
      (\<exists>f. iris_global_query api lower_age db = (Inr f, db)
           \<and> names f = columns \<and> nrows f = 0)) \<and>
   (DynamicSQL api lower_age db = (Inr rows, db2) \<and> Size rows = Inr k \<and>
    (\<forall>i\<le>k. Get rows i = Inr PyNone \<or> Get rows i = Inr EmptyStr) \<longrightarrow>
      (\<exists>f. dynamic_sql_query api lower_age db = (Inr f, db2)
           \<and> names f = [] \<and> nrows f = 0))"
proof (intro conjI impI)
  assume "sql_execute api (query lower_age) db = (Inr [], db1)"
  then show "\<exists>f. iris_sql_query api lower_age db = (Inr f, db1)
                 \<and> names f = columns \<and> nrows f = 0"
    by (simp add: iris_sql_query_def bnd_def lift_def DataFrame_rows_def names_def comp_def)
next
  assume h: "gref_keys api gname db = (keys, None) \<and>
    (\<forall>key\<in>set keys. \<exists>raw_val python_list v.
        gref_get api gname key db = Inr raw_val \<and> ToList api raw_val = Inr python_list \<and>
        py_index python_list 5 = Inr v \<and> py_ge v lower_age = Inr False)"
  then have "global_loop api db lower_age 5 keys [] = Inr []"
    by (intro global_loop_none) simp
  with h show "\<exists>f. iris_global_query api lower_age db = (Inr f, db)
                    \<and> names f = columns \<and> nrows f = 0"
    by (simp add: iris_global_query_def list_index_age ebind_def DataFrame_rows_def
        names_def comp_def)
next
  assume h: "DynamicSQL api lower_age db = (Inr rows, db2) \<and> Size rows = Inr k \<and>
    (\<forall>i\<le>k. Get rows i = Inr PyNone \<or> Get rows i = Inr EmptyStr)"
  then have "rows_loop api rows [0 ..< k + 1] [] = Inr []"
    by (intro rows_loop_blank) auto
  with h show "\<exists>f. dynamic_sql_query api lower_age db = (Inr f, db2)
                    \<and> names f = [] \<and> nrows f = 0"
    by (simp add: dynamic_sql_query_def bnd_def lift_def ret_def DataFrame_dicts_def names_def)
qed

text \<open>The example database, asked for patients of at least 100 years.\<close>

theorem empty_result_columns_witness:
  "(\<exists>f. iris_sql_query (mock_iris 100) 100 stored3 = (Inr f, stored3)
        \<and> names f = columns \<and> nrows f = 0) \<and>
   (\<exists>f. iris_global_query (mock_iris 100) 100 stored3 = (Inr f, stored3)
        \<and> names f = columns \<and> nrows f = 0) \<and>
   (\<exists>f. dynamic_sql_query (mock_iris 100) 100 stored3 = (Inr f, stored3)
        \<and> names f = [] \<and> nrows f = 0)"
proof -
  have 1: "sql_execute (mock_iris 100) (query 100) stored3 = (Inr [], stored3)"
    by (simp add: mock_iris_def mock_over_def run_select_query)
       (simp add: stored3_def appt_def sql_holds_def)
  have 2: "gref_keys (mock_iris 100) gname stored3 = (map fst stored3, None)"
    by (simp add: mock_defs)
  have 3: "\<forall>key\<in>set (map fst stored3). \<exists>raw_val python_list v.
        gref_get (mock_iris 100) gname key stored3 = Inr raw_val \<and>
        ToList (mock_iris 100) raw_val = Inr python_list \<and>
        py_index python_list 5 = Inr v \<and> py_ge v 100 = Inr False"
    by (simp add: mock_defs py_index_def)
  have 4: "DynamicSQL (mock_iris 100) 100 stored3 = (Inr (zero_based []), stored3)"
    by (simp add: mock_defs)
  have 5: "Size (zero_based []) = Inr 0"
    by (simp add: zero_based_def)
  have 6: "\<forall>i\<le>0. Get (zero_based []) i = Inr PyNone \<or> Get (zero_based []) i = Inr EmptyStr"
    by (simp add: zero_based_def)
  show ?thesis
    using empty_result_columns [of "mock_iris 100" 100 stored3 stored3 "map fst stored3"
        "zero_based []" stored3 0] 1 2 3 4 5 6
    by blast
qed

subsection \<open>Frames built from rows and from dicts\<close>



lemma length_schema: "length schema = 15"
  by (simp add: schema_def)












subsection \<open>The three paths over the stored records\<close>

lemma matching_members:
  assumes "list_all appointment_record rs" "list_all integer_age rs"
  shows "\<forall>r\<in>set (matching n rs). length r = length schema"
    and "\<forall>r\<in>set (matching n rs). is_VInt (r ! 5)"
    and "\<forall>r\<in>set (matching n rs). old_enough n r"
  using assms by (auto simp: matching_def list_all_iff appointment_record_def integer_age_def)





lemma select_matching:
  assumes "list_all appointment_record rs" "list_all integer_age rs"
  shows "run_select schema rs (query n) = Inr (matching n rs)"
proof -
  have "sql_holds Ge (r ! 5) n = old_enough n r" if "r \<in> set rs" for r
    using that assms(2) by (auto simp: list_all_iff integer_age_def is_VInt_def sql_holds_def old_enough_def)
  then have "filter (\<lambda>r. sql_holds Ge (r ! 5) n) rs = matching n rs"
    unfolding matching_def by (intro filter_cong refl)
  moreover have "map (\<lambda>r. map (\<lambda>j. r ! j) [0 ..< 15]) (matching n rs) = matching n rs"
  proof -
    have "map (\<lambda>j. r ! j) [0 ..< 15] = r" if "r \<in> set (matching n rs)" for r
      using that matching_members(1)[OF assms, of n] map_nth[of r] by (simp add: length_schema)
    then show ?thesis by (simp add: map_idI)
  qed
  ultimately show ?thesis by (simp add: run_select_query)
qed

lemma global_loop_stored:
  assumes "list_all appointment_record (map snd stored)" "list_all integer_age (map snd stored)"
    and "list_all (\<lambda>(k, r). \<exists>raw_val. gref_get api gname k db = Inr raw_val
                           \<and> ToList api raw_val = Inr r) stored"
  shows "global_loop api db n 5 (map fst stored) acc = Inr (acc @ matching n (map snd stored))"
  using assms
proof (induction stored arbitrary: acc)
  case Nil
  then show ?case by (simp add: matching_def)
next
  case (Cons p stored)
  obtain k r where p: "p = (k, r)" by (cases p)
  from Cons.prems p obtain raw_val where
    g: "gref_get api gname k db = Inr raw_val" "ToList api raw_val = Inr r" by auto
  from Cons.prems p obtain a where r: "length r = 15" "r ! 5 = VInt a"
    by (auto simp: appointment_record_def integer_age_def length_schema is_VInt_def)
  have step: "global_loop api db n 5 (map fst (p # stored)) acc =
      global_loop api db n 5 (map fst stored) (if n \<le> a then acc @ [r] else acc)"
    using g r p by (simp add: ebind_def py_index_def)
  have "old_enough n r = (n \<le> a)" using r by (simp add: old_enough_def)
  then have m: "matching n (map snd (p # stored)) =
      (if n \<le> a then [r] else []) @ matching n (map snd stored)"
    using p by (simp add: matching_def)
  from Cons.prems have "list_all appointment_record (map snd stored)"
    "list_all integer_age (map snd stored)"
    "list_all (\<lambda>(k, r). \<exists>raw_val. gref_get api gname k db = Inr raw_val
                           \<and> ToList api raw_val = Inr r) stored" by auto
  from Cons.IH[OF this] show ?case unfolding step m by simp
qed

lemma rows_loop_append:
  "rows_loop api rows (js @ ks) acc =
     ebind (rows_loop api rows js acc) (\<lambda>acc'. rows_loop api rows ks acc')"
  by (induction js arbitrary: acc) (auto simp: ebind_def split: sum.splits iris_obj.splits)

lemma rows_loop_objects:
  "list_all2 (serialises api) objs rs \<Longrightarrow> map (Get rows) js = map Inr objs \<Longrightarrow>
   rows_loop api rows js acc = Inr (acc @ map (zip schema) rs)"
proof (induction js arbitrary: objs rs acc)
  case Nil
  then show ?case by simp
next
  case (Cons j js)
  then obtain ob objs' where o: "objs = ob # objs'" by (cases objs) auto
  with Cons.prems obtain r rs' where r: "rs = r # rs'" by (cases rs) auto
  from Cons.prems o r obtain s where s: "ob = IrisObject (Inr s)" "json_loads api s = Inr (zip schema r)"
    by (auto simp: serialises_def)
  from Cons.prems o r have "list_all2 (serialises api) objs' rs'" "map (Get rows) js = map Inr objs'"
    "Get rows j = Inr ob" by auto
  with Cons.IH[of objs' rs' "acc @ [zip schema r]"] s r show ?case by (simp add: ebind_def)
qed

lemma rows_loop_exposes:
  assumes "exposes api rows rs" "Size rows = Inr n"
  shows "rows_loop api rows [0 ..< n + 1] [] = Inr (map (zip schema) rs)"
proof -
  from assms obtain objs where ob: "list_all2 (serialises api) objs rs"
    and c: "rows = zero_based objs \<or> rows = one_based objs"
    by (auto simp: exposes_def)
  from c assms(2) have n: "n = length objs" by (auto simp: zero_based_def one_based_def)
  from c show ?thesis
  proof
    assume z: "rows = zero_based objs"
    have "map (Get rows) [0 ..< n] = map Inr objs"
      unfolding z n by (rule nth_equalityI) (auto simp: zero_based_def)
    from rows_loop_objects[OF ob this, of "[]"]
    have "rows_loop api rows [0 ..< n] [] = Inr (map (zip schema) rs)" by simp
    moreover have "Get rows n = Inr EmptyStr" unfolding z n by (simp add: zero_based_def)
    ultimately show ?thesis
      using rows_loop_append[of api rows "[0 ..< n]" "[n]" "[]"] by (simp add: ebind_def)
  next
    assume z: "rows = one_based objs"
    have "map (Get rows) (map Suc [0 ..< n]) = map Inr objs"
      unfolding z n by (rule nth_equalityI) (auto simp: one_based_def)
    from rows_loop_objects[OF ob this, of "[]"]
    have "rows_loop api rows (map Suc [0 ..< n]) [] = Inr (map (zip schema) rs)" by simp
    moreover have "Get rows 0 = Inr EmptyStr" unfolding z n by (simp add: one_based_def)
    moreover have "[0 ..< n + 1] = 0 # map Suc [0 ..< n]"
      by (simp add: map_Suc_upt upt_conv_Cons del: upt_Suc)
    ultimately show ?thesis by (simp add: ebind_def)
  qed
qed

lemma sql_path:
  assumes "list_all appointment_record rs" "list_all integer_age rs" "sql_engine api db rs"
  shows "iris_sql_query api n db = (DataFrame_rows (matching n rs) columns, db)"
  using assms(3) select_matching[OF assms(1,2), of n]
  by (simp add: sql_engine_def iris_sql_query_def bnd_def lift_def)

lemma global_path:
  assumes "list_all appointment_record (map snd stored)" "list_all integer_age (map snd stored)"
    and "global_store api db stored"
  shows "iris_global_query api n db = (DataFrame_rows (matching n (map snd stored)) columns, db)"
proof -
  from assms have "global_loop api db n 5 (map fst stored) [] = Inr ([] @ matching n (map snd stored))"
    unfolding global_store_def by (intro global_loop_stored) auto
  with assms(3) show ?thesis
    by (simp add: global_store_def iris_global_query_def list_index_age ebind_def)
qed

lemma dynamic_path:
  assumes "class_method api db rs n"
  shows "dynamic_sql_query api n db = (Inr (DataFrame_dicts (map (zip schema) (matching n rs))), db)"
proof -
  from assms obtain rows where r: "DynamicSQL api n db = (Inr rows, db)"
    "exposes api rows (matching n rs)"
    by (auto simp: class_method_def)
  from r(2) obtain k where k: "Size rows = Inr k"
    by (auto simp: exposes_def zero_based_def one_based_def)
  from rows_loop_exposes[OF r(2) k] r(1) k show ?thesis
    by (simp add: dynamic_sql_query_def bnd_def lift_def ret_def)
qed


subsection \<open>The example database\<close>

lemma mock_records:
  "list_all appointment_record (map snd stored3)" "list_all integer_age (map snd stored3)"
  by (simp_all add: stored3_def appt_def appointment_record_def integer_age_def schema_def)

lemma mock_sql_engine: "sql_engine (mock_over recs n) db (map snd db)"
  by (simp add: sql_engine_def mock_over_def)

lemma mock_global_store: "global_store (mock_iris n) stored3 stored3"
  by (simp add: global_store_def mock_iris_def mock_over_def stored3_def key_text_def str_int_def
      str_nat.simps)

lemma mock_class_method: "class_method (mock_iris n) stored3 (map snd stored3) n"
proof -
  have s: "\<forall>r\<in>set (map snd stored3). serialises (mock_iris n) (IrisObject (Inr (json_text r))) r"
    by (simp add: serialises_def mock_iris_def mock_over_def stored3_def json_text_def appt_def
        str_int_def str_nat.simps)
  have "list_all2 (serialises (mock_iris n)) (map (\<lambda>r. IrisObject (Inr (json_text r))) rs) rs"
    if "\<forall>r\<in>set rs. serialises (mock_iris n) (IrisObject (Inr (json_text r))) r" for rs
    using that by (induction rs) auto
  from this[of "matching n (map snd stored3)"] s
  have "list_all2 (serialises (mock_iris n))
      (map (\<lambda>r. IrisObject (Inr (json_text r))) (matching n (map snd stored3))) (matching n (map snd stored3))"
    by (auto simp: matching_def)
  then show ?thesis
    by (auto simp: class_method_def mock_iris_def mock_over_def exposes_def)
qed





text \<open>
  Claim C1 at a minimum age no stored record reaches: over the example database at
  \<open>lower_age = 100\<close> the frame of \<open>dynamic_sql_query\<close> has no column, the frames of
  \<open>iris_sql_query\<close> and \<open>iris_global_query\<close> have the fifteen columns.
\<close>

theorem query_paths_differ_when_empty:
  "sql_engine (mock_iris 100) stored3 (map snd stored3) \<and>
   global_store (mock_iris 100) stored3 stored3 \<and>
   class_method (mock_iris 100) stored3 (map snd stored3) 100 \<and>
   fst (dynamic_sql_query (mock_iris 100) 100 stored3) = Inr \<lparr>cols = [], nrows = 0\<rparr> \<and>
   fst (iris_sql_query (mock_iris 100) 100 stored3)
     = Inr \<lparr>cols = map (\<lambda>c. (c, \<lparr>dtype = DObject, cells = []\<rparr>)) columns, nrows = 0\<rparr> \<and>
   fst (iris_global_query (mock_iris 100) 100 stored3)
     = fst (iris_sql_query (mock_iris 100) 100 stored3) \<and>
   fst (dynamic_sql_query (mock_iris 100) 100 stored3)
     \<noteq> fst (iris_sql_query (mock_iris 100) 100 stored3)"
proof -
  have e: "sql_engine (mock_iris 100) stored3 (map snd stored3)"
    unfolding mock_iris_def by (rule mock_sql_engine)
  have m: "matching 100 (map snd stored3) = []"
    by (simp add: matching_def stored3_def old_enough_def appt_def)
  have d: "fst (dynamic_sql_query (mock_iris 100) 100 stored3) = Inr \<lparr>cols = [], nrows = 0\<rparr>"
    by (simp add: dynamic_path [OF mock_class_method] m DataFrame_dicts_def)
  have s: "fst (iris_sql_query (mock_iris 100) 100 stored3)
      = Inr \<lparr>cols = map (\<lambda>c. (c, \<lparr>dtype = DObject, cells = []\<rparr>)) columns, nrows = 0\<rparr>"
    by (simp add: sql_path [OF mock_records e] m DataFrame_rows_def)
  have g: "fst (iris_global_query (mock_iris 100) 100 stored3)
      = fst (iris_sql_query (mock_iris 100) 100 stored3)"
    by (simp add: sql_path [OF mock_records e] global_path [OF mock_records mock_global_store])
  have "fst (dynamic_sql_query (mock_iris 100) 100 stored3)
     \<noteq> fst (iris_sql_query (mock_iris 100) 100 stored3)"
    unfolding d s by (simp add: columns_def)
  with e mock_global_store [of 100] mock_class_method [of 100] d s g show ?thesis by simp
qed

section \<open>Properties of the preprocessing\<close>

subsection \<open>The derived columns of a date column\<close>

lemma traverse_map:
  "\<forall>x\<in>set xs. g x = Inr (h x) \<Longrightarrow> traverse g xs = Inr (map h xs)"
  by (induction xs) (auto simp: ebind_def)

lemma hour_range: "0 \<le> hour t \<and> hour t \<le> 23"
  by (simp add: hour_def)

lemma dayofweek_range: "0 \<le> dayofweek t \<and> dayofweek t \<le> 6"
  by (simp add: dayofweek_def)

lemma cut_hour:
  "0 \<le> h \<Longrightarrow> h \<le> 23 \<Longrightarrow>
   cut_cell [-1, 6, 12, 17, 24] [0, 1, 2, 3] (VInt h) =
     Inr (VInt (if h \<le> 6 then 0 else if h \<le> 12 then 1 else if h \<le> 17 then 2 else 3))"
  by simp

lemma dt_timestamps:
  "dt field \<lparr>dtype = DDatetime64, cells = map VTimestamp ts\<rparr> =
     Inr \<lparr>dtype = DInt32, cells = map (\<lambda>t. VInt (field t)) ts\<rparr>"
  by (simp add: dt_def list_all_iff comp_def cell_of_def)

lemma is_weekend_timestamps:
  "is_weekend \<lparr>dtype = DDatetime64, cells = map VTimestamp ts\<rparr> =
     Inr \<lparr>dtype = DInt8, cells = map (\<lambda>t. VInt (if 5 \<le> dayofweek t then 1 else 0)) ts\<rparr>"
proof -
  have 1: "traverse (ge_cell 5) (map (\<lambda>t. VInt (dayofweek t)) ts)
      = Inr (map (\<lambda>t. VBool (5 \<le> dayofweek t)) ts)"
    by (induction ts) (auto simp: ebind_def)
  have 2: "traverse int8_cell (map (\<lambda>t. VBool (5 \<le> dayofweek t)) ts)
      = Inr (map (\<lambda>t. VInt (if 5 \<le> dayofweek t then 1 else 0)) ts)"
    by (induction ts) (auto simp: ebind_def)
  show ?thesis
    by (simp add: is_weekend_def dt_timestamps series_ge_def astype_int8_def 1 2 ebind_def)
qed

lemma part_of_day_timestamps:
  "part_of_day \<lparr>dtype = DDatetime64, cells = map VTimestamp ts\<rparr> =
     Inr \<lparr>dtype = DInt8, cells = map (\<lambda>t. VInt (hour_bin (hour t))) ts\<rparr>"
proof -
  have 1: "traverse (cut_cell [-1, 6, 12, 17, 24] [0, 1, 2, 3]) (map (\<lambda>t. VInt (hour t)) ts)
      = Inr (map (\<lambda>t. VInt (hour_bin (hour t))) ts)"
    using hour_range by (induction ts) (auto simp: ebind_def cut_hour hour_bin_def simp del: cut_cell.simps)
  have 2: "traverse int8_cell (map (\<lambda>t. VInt (hour_bin (hour t))) ts)
      = Inr (map (\<lambda>t. VInt (hour_bin (hour t))) ts)"
    by (induction ts) (auto simp: ebind_def wrap8_def hour_bin_def)
  show ?thesis
    by (simp add: part_of_day_def dt_timestamps pd_cut_def astype_int8_def 1 2 ebind_def)
qed

lemma assign_append:
  assumes "map_of (cols (store w df)) col = Some s" "expr s = Inr v"
    "name \<notin> set (names (store w df))"
  shows "assign df name expr col w =
     (Inr (), w\<lparr>store := (store w)(df := (store w df)\<lparr>cols := cols (store w df) @ [(name, v)]\<rparr>)\<rparr>)"
  using assms
  by (simp add: assign_def bnd_def df_getitem_def lift_def df_setitem_def set_column_def)

lemma map_of_snoc_Some: "map_of xs k = Some v \<Longrightarrow> map_of (xs @ ys) k = Some v"
  by (induction xs) auto

lemma date_features_ok:
  assumes s: "map_of (cols (store w df)) col = Some \<lparr>dtype = DDatetime64, cells = map VTimestamp ts\<rparr>"
    and fresh: "\<forall>c\<in>set (map fst (features col ts)). c \<notin> set (names (store w df))"
  shows "date_features df col w =
     (Inr (), w\<lparr>store := (store w)(df := (store w df)\<lparr>cols := cols (store w df) @ features col ts\<rparr>)\<rparr>)"
  using fresh
  by (simp add: date_features_def bnd_def assign_def df_getitem_def lift_def df_setitem_def
      set_column_def names_def features_def dt_timestamps is_weekend_timestamps
      part_of_day_timestamps s map_of_snoc_Some [OF s] del: map_of_append)

subsection \<open>The run of noshows_data_preprocessing\<close>

lemma map_of_filter_key:
  "map_of (filter (\<lambda>(c, s). Q c) xs) c = (if Q c then map_of xs c else None)"
  by (induction xs) auto

lemma map_of_map_key:
  "map_of (map (\<lambda>(c, s). (c, h c s)) xs) c = map_option (h c) (map_of xs c)"
  by (induction xs) auto

lemma map_of_drop_columns:
  "map_of (cols (drop_columns labels f)) c = (if c \<in> set labels then None else map_of (cols f) c)"
  by (simp add: drop_columns_def map_of_filter_key)

lemma names_drop_columns: "names (drop_columns labels f) = filter (\<lambda>c. c \<notin> set labels) (names f)"
  by (simp add: drop_columns_def names_def filter_map comp_def case_prod_unfold)

lemma df_drop_ok:
  "set labels \<subseteq> set (names (store w df)) \<Longrightarrow>
   df_drop labels df w =
     (Inr (next_ref w),
      w\<lparr>store := (store w)(next_ref w := drop_columns labels (store w df)),
        next_ref := Suc (next_ref w)\<rparr>)"
  by (auto simp: df_drop_def new_frame_def list_all_iff)

lemma astype_columns_ok:
  assumes d: "distinct (names f0)"
    and c1: "converts P f0 ''scheduledday'' ts1" and c2: "converts P f0 ''appointmentday'' ts2"
    and sub: "set (cols f) \<subseteq> set (cols f0)"
  shows "astype_columns P astype_mapping f =
     Inr (f\<lparr>cols := map (\<lambda>(c, s). (c, converted ts1 ts2 c s)) (cols f)\<rparr>)"
proof -
  have "(case map_of astype_mapping c of None \<Rightarrow> Inr (c, s)
          | Some t \<Rightarrow> ebind (series_astype P t s) (\<lambda>s'. Inr (c, s')))
        = Inr (c, converted ts1 ts2 c s)" if "(c, s) \<in> set (cols f)" for c s
  proof -
    from that sub d have m: "map_of (cols f0) c = Some s"
      by (auto simp: names_def)
    show ?thesis
      using c1 c2 m by (auto simp: astype_mapping_def converted_def converts_def ebind_def)
  qed
  then have "traverse (\<lambda>(c, s). case map_of astype_mapping c of None \<Rightarrow> Inr (c, s)
          | Some t \<Rightarrow> ebind (series_astype P t s) (\<lambda>s'. Inr (c, s'))) (cols f)
        = Inr (map (\<lambda>(c, s). (c, converted ts1 ts2 c s)) (cols f))"
    by (intro traverse_map) auto
  then show ?thesis by (simp add: astype_columns_def ebind_def)
qed

lemma three_drops:
  "filter (\<lambda>(c, s). c \<notin> set [''showed_up''])
     (filter (\<lambda>(c, s). c \<notin> set [''gender'', ''neighbourhood''])
       (filter (\<lambda>(c, s). c \<notin> set date_cols) xs))
   = filter (\<lambda>(c, s). c \<notin> set [''scheduledday'', ''appointmentday'', ''gender'',
                                        ''neighbourhood'', ''showed_up'']) xs"
  by (induction xs) (auto simp: date_cols_def)

lemma four_drops:
  "filter (\<lambda>(c, s). c \<notin> set [''scheduledday'', ''appointmentday'', ''gender'',
                                        ''neighbourhood'', ''showed_up''])
     (map (\<lambda>(c, s). (c, converted ts1 ts2 c s))
        (filter (\<lambda>(c, s). c \<notin> set [''appointmentid'', ''patientid'']) xs))
   = filter (\<lambda>(c, s). c \<notin> set dropped) xs"
  by (induction xs) (auto simp: dropped_def converted_def)

lemma kept_features:
  "filter (\<lambda>(c, s). c \<notin> set [''scheduledday'', ''appointmentday'', ''gender'',
                                        ''neighbourhood'', ''showed_up''])
     (features ''scheduledday'' ts1 @ features ''appointmentday'' ts2)
   = features ''scheduledday'' ts1 @ features ''appointmentday'' ts2"
  by (simp add: features_def)

lemma preprocessing_result:
  assumes p: "prepared P (store w df) ts1 ts2"
  shows "\<exists>w' y. noshows_data_preprocessing P df w = (Inr (next_ref w + 4, y), w') \<and>
       map_of (cols (store w df)) ''showed_up'' = Some y \<and>
       store w' (next_ref w + 4) =
         (store w df)\<lparr>cols := filter (\<lambda>(c, s). c \<notin> set dropped) (cols (store w df))
                     @ features ''scheduledday'' ts1 @ features ''appointmentday'' ts2\<rparr>"
proof -
  define f0 where "f0 = store w df"
  define n where "n = next_ref w"
  let ?F = "features ''scheduledday'' ts1 @ features ''appointmentday'' ts2"
  from p have d: "distinct (names f0)" and sub: "set dropped \<subseteq> set (names f0)"
    and fresh: "set (map fst ?F) \<inter> set (names f0) = {}"
    and c1: "converts P f0 ''scheduledday'' ts1" and c2: "converts P f0 ''appointmentday'' ts2"
    by (auto simp: prepared_def f0_def)
  from sub have "''showed_up'' \<in> fst ` set (cols f0)"
    by (auto simp: dropped_def names_def)
  then obtain y where y: "map_of (cols f0) ''showed_up'' = Some y"
    by (cases "map_of (cols f0) ''showed_up''") (auto simp: map_of_eq_None_iff)
  \<comment> \<open>the first drop\<close>
  define f1 where "f1 = drop_columns [''appointmentid'', ''patientid''] f0"
  define w1 where "w1 = w\<lparr>store := (store w)(n := f1), next_ref := Suc n\<rparr>"
  have s1: "df_drop [''appointmentid'', ''patientid''] df w = (Inr n, w1)"
    using sub by (simp add: df_drop_ok f0_def[symmetric] dropped_def w1_def f1_def n_def)
  \<comment> \<open>astype\<close>
  define f2 where "f2 = f1\<lparr>cols := map (\<lambda>(c, s). (c, converted ts1 ts2 c s)) (cols f1)\<rparr>"
  define w2 where "w2 = w1\<lparr>store := (store w1)(Suc n := f2), next_ref := Suc (Suc n)\<rparr>"
  have n1: "names f1 = filter (\<lambda>c. c \<notin> set [''appointmentid'', ''patientid'']) (names f0)"
    by (simp add: f1_def names_drop_columns)
  have a: "astype_columns P astype_mapping f1 = Inr f2"
    unfolding f2_def by (rule astype_columns_ok[OF d c1 c2]) (auto simp: f1_def drop_columns_def)
  have s2: "df_astype P astype_mapping n w1 = (Inr (Suc n), w2)"
    using sub a
    by (auto simp: df_astype_def w1_def w2_def n1 astype_mapping_def dropped_def bnd_def lift_def new_frame_def)
  \<comment> \<open>the loop over the two date columns\<close>
  have n2: "names f2 = names f1"
    by (simp add: f2_def names_def comp_def case_prod_unfold)
  have in1: "''scheduledday'' \<in> set (names f1)" "''appointmentday'' \<in> set (names f1)"
    using sub by (auto simp: n1 dropped_def)
  have r1: "map_of (cols f2) ''scheduledday'' = Some \<lparr>dtype = DDatetime64, cells = map VTimestamp ts1\<rparr>"
    using in1(1) unfolding f2_def
    by (cases "map_of (cols f1) ''scheduledday''")
      (auto simp: map_of_map_key converted_def names_def map_of_eq_None_iff)
  have r2: "map_of (cols f2) ''appointmentday'' = Some \<lparr>dtype = DDatetime64, cells = map VTimestamp ts2\<rparr>"
    using in1(2) unfolding f2_def
    by (cases "map_of (cols f1) ''appointmentday''")
      (auto simp: map_of_map_key converted_def names_def map_of_eq_None_iff)
  have fr: "set (map fst ?F) \<inter> set (names f2) = {}"
    using fresh unfolding n2 n1 by auto
  define f2a where "f2a = f2\<lparr>cols := cols f2 @ features ''scheduledday'' ts1\<rparr>"
  define w2a where "w2a = w2\<lparr>store := (store w2)(Suc n := f2a)\<rparr>"
  define f2b where "f2b = f2\<lparr>cols := cols f2 @ ?F\<rparr>"
  define w3 where "w3 = w2\<lparr>store := (store w2)(Suc n := f2b)\<rparr>"
  have l1: "date_features (Suc n) ''scheduledday'' w2 = (Inr (), w2a)"
    unfolding w2a_def f2a_def
    using date_features_ok[of w2 "Suc n" "''scheduledday''" ts1] r1 fr
    by (auto simp: w2_def)
  have l2: "date_features (Suc n) ''appointmentday'' w2a = (Inr (), w3)"
  proof -
    have "map_of (cols (store w2a (Suc n))) ''appointmentday''
        = Some \<lparr>dtype = DDatetime64, cells = map VTimestamp ts2\<rparr>"
      by (simp add: w2a_def f2a_def map_of_snoc_Some[OF r2] del: map_of_append)
    moreover have "\<forall>c\<in>set (map fst (features ''appointmentday'' ts2)).
        c \<notin> set (names (store w2a (Suc n)))"
    proof -
      have "set (map fst (features ''appointmentday'' ts2))
          \<inter> set (map fst (features ''scheduledday'' ts1)) = {}"
        by (simp add: features_def)
      with fr show ?thesis by (auto simp: w2a_def f2a_def names_def)
    qed
    ultimately show ?thesis
      using date_features_ok[of w2a "Suc n" "''appointmentday''" ts2]
      by (simp add: w2a_def w3_def f2a_def f2b_def)
  qed
  have s3: "for_each (date_features (Suc n)) date_cols w2 = (Inr (), w3)"
    by (simp add: date_cols_def bnd_def l1 l2 ret_def)
  \<comment> \<open>the three drops and the read of the label column\<close>
  have nb: "names f2b = names f1 @ map fst ?F"
    by (simp add: f2b_def names_def n2[unfolded names_def])
  define f3 where "f3 = drop_columns date_cols f2b"
  define w4 where "w4 = w3\<lparr>store := (store w3)(Suc (Suc n) := f3), next_ref := Suc (Suc (Suc n))\<rparr>"
  have s4: "df_drop date_cols (Suc n) w3 = (Inr (Suc (Suc n)), w4)"
    using in1 df_drop_ok[of date_cols w3 "Suc n"]
    by (simp add: w3_def w2_def w4_def f3_def nb date_cols_def)
  define f4 where "f4 = drop_columns [''gender'', ''neighbourhood''] f3"
  define w5 where "w5 = w4\<lparr>store := (store w4)(Suc (Suc (Suc n)) := f4),
                        next_ref := Suc (Suc (Suc (Suc n)))\<rparr>"
  have in3: "''gender'' \<in> set (names f3)" "''neighbourhood'' \<in> set (names f3)"
    using sub by (auto simp: f3_def names_drop_columns nb n1 dropped_def date_cols_def)
  have s5: "df_drop [''gender'', ''neighbourhood''] (Suc (Suc n)) w4 = (Inr (Suc (Suc (Suc n))), w5)"
    using in3 df_drop_ok[of "[''gender'', ''neighbourhood'']" w4 "Suc (Suc n)"]
    by (simp add: w4_def w5_def f4_def)
  have "map_of (cols f2) ''showed_up'' = Some y"
    using y by (simp add: f2_def f1_def map_of_drop_columns map_of_map_key converted_def)
  then have "map_of (cols f2b) ''showed_up'' = Some y"
    by (simp add: f2b_def map_of_snoc_Some del: map_of_append)
  then have y4: "map_of (cols f4) ''showed_up'' = Some y"
    by (simp add: f4_def f3_def map_of_drop_columns date_cols_def)
  have s6: "df_getitem (Suc (Suc (Suc n))) ''showed_up'' w5 = (Inr y, w5)"
    by (simp add: df_getitem_def w5_def y4)
  define X where "X = drop_columns [''showed_up''] f4"
  define w6 where "w6 = w5\<lparr>store := (store w5)(Suc (Suc (Suc (Suc n))) := X),
                        next_ref := Suc (Suc (Suc (Suc (Suc n))))\<rparr>"
  have in4: "''showed_up'' \<in> set (names f4)"
    using y4 by (auto simp: names_def dest: map_of_SomeD intro: rev_image_eqI)
  have s7: "df_drop [''showed_up''] (Suc (Suc (Suc n))) w5 = (Inr (Suc (Suc (Suc (Suc n)))), w6)"
    using in4 df_drop_ok[of "[''showed_up'']" w5 "Suc (Suc (Suc n))"]
    by (simp add: w5_def w6_def X_def)
  have run: "noshows_data_preprocessing P df w = (Inr (Suc (Suc (Suc (Suc n))), y), w6)"
    unfolding noshows_data_preprocessing_def astype_mapping_def[symmetric]
    by (simp add: bnd_def s1 s2 s3 s4 s5 s6 s7 ret_def)
  have k1: "cols f1 = filter (\<lambda>(c, s). c \<notin> set [''appointmentid'', ''patientid'']) (cols f0)"
    by (simp add: f1_def drop_columns_def)
  have k2: "cols f2b = map (\<lambda>(c, s). (c, converted ts1 ts2 c s)) (cols f1) @ ?F"
    by (simp add: f2b_def f2_def)
  have k3: "cols f3 = filter (\<lambda>(c, s). c \<notin> set date_cols) (cols f2b)"
    by (simp add: f3_def drop_columns_def)
  have k4: "cols f4 = filter (\<lambda>(c, s). c \<notin> set [''gender'', ''neighbourhood'']) (cols f3)"
    by (simp add: f4_def drop_columns_def)
  have k5: "cols X = filter (\<lambda>(c, s). c \<notin> set [''showed_up'']) (cols f4)"
    by (simp add: X_def drop_columns_def)
  have "cols X = filter (\<lambda>(c, s). c \<notin> set dropped) (cols f0) @ ?F"
    unfolding k5 k4 k3 k2 k1 three_drops filter_append four_drops
    using kept_features [of ts1 ts2] by simp
  then have "store w6 (Suc (Suc (Suc (Suc n))))
      = f0\<lparr>cols := filter (\<lambda>(c, s). c \<notin> set dropped) (cols f0) @ ?F\<rparr>"
    by (simp add: w6_def X_def f4_def f3_def f2b_def f2_def f1_def drop_columns_def)
  with run y have "noshows_data_preprocessing P df w = (Inr (next_ref w + 4, y), w6) \<and>
       map_of (cols (store w df)) ''showed_up'' = Some y \<and>
       store w6 (next_ref w + 4) =
         (store w df)\<lparr>cols := filter (\<lambda>(c, s). c \<notin> set dropped) (cols (store w df)) @ ?F\<rparr>"
    by (simp add: f0_def n_def eval_nat_numeral)
  then show ?thesis by blast
qed

subsection \<open>The objects a call leaves alone\<close>

lemma keeps_bnd:
  assumes m: "keeps n m Q" and f: "\<And>x. Q x \<Longrightarrow> keeps n (f x) R"
  shows "keeps n (bnd m f) R"
  unfolding keeps_def
proof (intro allI impI)
  fix w :: world assume n: "n \<le> next_ref w"
  obtain r w1 where r: "m w = (r, w1)" by (cases "m w")
  from m n r have 1: "n \<le> next_ref w1" "\<forall>i<n. store w1 i = store w i"
    "clock w1 = clock w" "ticks w1 = ticks w" "case r of Inl e \<Rightarrow> True | Inr x \<Rightarrow> Q x"
    unfolding keeps_def by (auto dest!: spec[of _ w])
  show "case bnd m f w of (r, w') \<Rightarrow>
           n \<le> next_ref w' \<and> (\<forall>i<n. store w' i = store w i) \<and>
           clock w' = clock w \<and> ticks w' = ticks w \<and>
           (case r of Inl e \<Rightarrow> True | Inr x \<Rightarrow> R x)"
  proof (cases r)
    case (Inl e)
    with r 1 show ?thesis by (simp add: bnd_def)
  next
    case (Inr x)
    with 1 have "Q x" by simp
    from f[OF this] 1(1) obtain r2 w2 where r2: "f x w1 = (r2, w2)"
      and 2: "n \<le> next_ref w2" "\<forall>i<n. store w2 i = store w1 i"
      "clock w2 = clock w1" "ticks w2 = ticks w1" "case r2 of Inl e \<Rightarrow> True | Inr x \<Rightarrow> R x"
      unfolding keeps_def by (cases "f x w1") (auto dest!: spec[of _ w1])
    with r Inr 1 show ?thesis by (simp add: bnd_def)
  qed
qed

lemma keeps_ret: "Q x \<Longrightarrow> keeps n (ret x) Q"
  by (simp add: keeps_def ret_def)

lemma keeps_lift: "keeps n (lift m) (\<lambda>_. True)"
  by (simp add: keeps_def lift_def split: sum.splits)

lemma keeps_new_frame: "keeps n (new_frame f) (\<lambda>r. n \<le> r)"
  by (simp add: keeps_def new_frame_def)

lemma keeps_df_drop: "keeps n (df_drop labels df) (\<lambda>r. n \<le> r)"
  by (simp add: keeps_def df_drop_def new_frame_def)

lemma keeps_df_astype: "keeps n (df_astype P mapping df) (\<lambda>r. n \<le> r)"
  by (simp add: keeps_def df_astype_def bnd_def lift_def new_frame_def split: sum.splits)

lemma keeps_df_getitem: "keeps n (df_getitem df col) (\<lambda>_. True)"
  by (simp add: keeps_def df_getitem_def split: option.splits)

lemma keeps_df_setitem: "n \<le> df \<Longrightarrow> keeps n (df_setitem df col s) (\<lambda>_. True)"
  by (simp add: keeps_def df_setitem_def)

lemma keeps_assign: "n \<le> df \<Longrightarrow> keeps n (assign df name expr col) (\<lambda>_. True)"
  unfolding assign_def
  by (intro keeps_bnd[OF keeps_df_getitem] keeps_bnd[OF keeps_lift] keeps_df_setitem)

lemma keeps_date_features: "n \<le> df \<Longrightarrow> keeps n (date_features df col) (\<lambda>_. True)"
  unfolding date_features_def
  by (intro keeps_bnd[OF keeps_assign] keeps_assign)

lemma keeps_for_each:
  "(\<And>x. keeps n (body x) (\<lambda>_. True)) \<Longrightarrow> keeps n (for_each body xs) (\<lambda>_. True)"
  by (induction xs) (auto intro: keeps_ret keeps_bnd)

lemma keeps_preprocessing: "keeps n (noshows_data_preprocessing P df) (\<lambda>_. True)"
  unfolding noshows_data_preprocessing_def
  by (intro keeps_bnd[OF keeps_df_drop] keeps_bnd[OF keeps_df_astype]
      keeps_bnd[OF keeps_for_each] keeps_bnd[OF keeps_df_getitem] keeps_date_features
      keeps_ret) simp_all

text \<open>
  Claim C8.  Every frame object that exists when \<open>noshows_data_preprocessing\<close> is
  called, the argument among them, is the same object with the same columns and values
  after the call, whether the call returns or raises: the drops and the cast build new
  objects, and the assignments change only the object the cast built.
\<close>

theorem argument_unchanged:
  "r < next_ref w \<Longrightarrow> store (snd (noshows_data_preprocessing P df w)) r = store w r"
  using keeps_preprocessing[of "next_ref w" P df, unfolded keeps_def, rule_format, of w]
  by (cases "noshows_data_preprocessing P df w") simp

lemma preprocessing_clock:
  "clock (snd (noshows_data_preprocessing P df w)) = clock w \<and>
   ticks (snd (noshows_data_preprocessing P df w)) = ticks w"
  using keeps_preprocessing[of "next_ref w" P df, unfolded keeps_def, rule_format, of w]
  by (cases "noshows_data_preprocessing P df w") simp

subsection \<open>The columns of the feature frame\<close>

lemma names_features: "map fst (features col ts) = derived col"
  by (simp add: features_def derived_def)

lemma prepared_expected:
  assumes "expected_columns f" "converts P f ''scheduledday'' ts1"
    "converts P f ''appointmentday'' ts2"
  shows "prepared P f ts1 ts2"
proof -
  have "set dropped \<subseteq> set columns" by (simp add: dropped_def columns_def)
  moreover have "set (derived ''scheduledday'' @ derived ''appointmentday'') \<inter> set columns = {}"
    by (simp add: derived_def columns_def)
  ultimately show ?thesis
    using assms by (simp add: prepared_def expected_columns_def names_features)
qed

lemma kept_columns: "filter (\<lambda>c. c \<notin> set dropped) columns = passthrough"
  by (simp add: columns_def dropped_def passthrough_def)

lemma names_result:
  assumes "store w' X = f\<lparr>cols := filter (\<lambda>(c, s). c \<notin> set dropped) (cols f)
             @ features ''scheduledday'' ts1 @ features ''appointmentday'' ts2\<rparr>"
  shows "names (store w' X) = filter (\<lambda>c. c \<notin> set dropped) (names f)
             @ derived ''scheduledday'' @ derived ''appointmentday''"
  unfolding assms
  by (simp add: names_def names_features filter_map comp_def case_prod_unfold)

text \<open>
  Claim C3, amended.  For an input frame with exactly the fifteen expected columns
  whose two date columns convert to timestamps with none missing, the function returns
  \<open>(X, y)\<close>: \<open>y\<close> is the input's \<^verbatim>\<open>showed_up\<close> column, the columns of \<open>X\<close> are exactly
  the eight passed through and the seven derived from each date column, none of the
  seven dropped columns is among them, and for an input in the column order of the
  query functions they stand in the order the claim lists.
\<close>

theorem preprocessing_columns:
  assumes "expected_columns (store w df)"
    and "converts P (store w df) ''scheduledday'' ts1"
    and "converts P (store w df) ''appointmentday'' ts2"
  shows "\<exists>X y w'. noshows_data_preprocessing P df w = (Inr (X, y), w') \<and>
     map_of (cols (store w df)) ''showed_up'' = Some y \<and>
     distinct (names (store w' X)) \<and>
     set (names (store w' X)) = set feature_columns \<and>
     set (names (store w' X)) \<inter> set dropped = {} \<and>
     (names (store w df) = columns \<longrightarrow> names (store w' X) = feature_columns)"
proof -
  let ?f = "store w df"
  from preprocessing_result[OF prepared_expected[OF assms]]
  obtain w' y where run: "noshows_data_preprocessing P df w = (Inr (next_ref w + 4, y), w')"
    and y: "map_of (cols ?f) ''showed_up'' = Some y"
    and X: "store w' (next_ref w + 4) = ?f\<lparr>cols := filter (\<lambda>(c, s). c \<notin> set dropped) (cols ?f)
             @ features ''scheduledday'' ts1 @ features ''appointmentday'' ts2\<rparr>"
    by blast
  note n = names_result[OF X]
  from assms(1) have d: "distinct (names ?f)" and e: "set (names ?f) = set columns"
    by (simp_all add: expected_columns_def)
  have s: "set (filter (\<lambda>c. c \<notin> set dropped) (names ?f)) = set passthrough"
    using e kept_columns by (metis set_filter)
  have dd: "distinct (derived ''scheduledday'' @ derived ''appointmentday'')"
    by (simp add: derived_def)
  have dj: "set passthrough \<inter> set (derived ''scheduledday'' @ derived ''appointmentday'') = {}"
    by (simp add: derived_def passthrough_def)
  have 1: "distinct (names (store w' (next_ref w + 4)))"
    unfolding n using d dd dj s by (simp add: Int_commute Int_Un_distrib)
  have 2: "set (names (store w' (next_ref w + 4))) = set feature_columns"
    unfolding n using s by (simp add: feature_columns_def)
  have 3: "set (names (store w' (next_ref w + 4))) \<inter> set dropped = {}"
    unfolding 2 by (simp add: feature_columns_def derived_def passthrough_def dropped_def)
  have 4: "names ?f = columns \<longrightarrow> names (store w' (next_ref w + 4)) = feature_columns"
    unfolding n by (simp add: kept_columns feature_columns_def)
  from run y 1 2 3 4 show ?thesis by blast
qed

subsection \<open>The dtypes of the feature frame\<close>

lemma map_of_kept:
  "c \<notin> set dropped \<Longrightarrow>
   map_of (filter (\<lambda>(c, s). c \<notin> set dropped) xs @ ys) c
     = (case map_of xs c of None \<Rightarrow> map_of ys c | Some s \<Rightarrow> Some s)"
  by (induction xs) auto

lemma kept_names:
  "set (names f) = set columns \<Longrightarrow>
   set (filter (\<lambda>c. c \<notin> set dropped) (names f)) = set passthrough"
  by (simp add: kept_columns[symmetric])

text \<open>
  Claim C4, amended.  Under the conditions of C3 the fourteen derived columns of \<open>X\<close>
  have dtype \<^verbatim>\<open>int32\<close> or \<^verbatim>\<open>int8\<close>, \<^verbatim>\<open>gender\<close> and \<^verbatim>\<open>neighbourhood\<close> are absent,
  and each of the eight other columns is the input's column unchanged; so every column
  of \<open>X\<close> is numeric exactly when those eight columns of the input are.
\<close>

theorem feature_dtypes:
  assumes "expected_columns (store w df)"
    and "converts P (store w df) ''scheduledday'' ts1"
    and "converts P (store w df) ''appointmentday'' ts2"
  shows "\<exists>X y w'. noshows_data_preprocessing P df w = (Inr (X, y), w') \<and>
     ''gender'' \<notin> set (names (store w' X)) \<and> ''neighbourhood'' \<notin> set (names (store w' X)) \<and>
     (\<forall>c\<in>set (derived ''scheduledday'' @ derived ''appointmentday'').
        \<exists>s. map_of (cols (store w' X)) c = Some s \<and> (dtype s = DInt32 \<or> dtype s = DInt8)) \<and>
     (\<forall>c\<in>set passthrough. map_of (cols (store w' X)) c = map_of (cols (store w df)) c) \<and>
     ((\<forall>c s. map_of (cols (store w' X)) c = Some s \<longrightarrow> numeric (dtype s)) \<longleftrightarrow>
      (\<forall>c\<in>set passthrough. \<forall>s. map_of (cols (store w df)) c = Some s \<longrightarrow> numeric (dtype s)))"
proof -
  let ?f = "store w df"
  let ?F = "features ''scheduledday'' ts1 @ features ''appointmentday'' ts2"
  from preprocessing_result[OF prepared_expected[OF assms]]
  obtain w' y where run: "noshows_data_preprocessing P df w = (Inr (next_ref w + 4, y), w')"
    and X: "store w' (next_ref w + 4) = ?f\<lparr>cols := filter (\<lambda>(c, s). c \<notin> set dropped) (cols ?f) @ ?F\<rparr>"
    by blast
  let ?X = "store w' (next_ref w + 4)"
  note n = names_result[OF X]
  from assms(1) have d: "distinct (names ?f)" and e: "set (names ?f) = set columns"
    by (simp_all add: expected_columns_def)
  have cX: "cols ?X = filter (\<lambda>(c, s). c \<notin> set dropped) (cols ?f) @ ?F"
    by (simp add: X)
  have 1: "''gender'' \<notin> set (names ?X)" "''neighbourhood'' \<notin> set (names ?X)"
    unfolding n by (simp_all add: dropped_def derived_def)
  have pt: "map_of (cols ?X) c = map_of (cols ?f) c" if "c \<in> set passthrough" for c
  proof -
    from that have nd: "c \<notin> set dropped" and "c \<in> set columns"
      by (auto simp: passthrough_def dropped_def columns_def)
    with e have "c \<in> fst ` set (cols ?f)" by (simp add: names_def)
    then obtain s where "map_of (cols ?f) c = Some s"
      by (cases "map_of (cols ?f) c") (auto simp: map_of_eq_None_iff)
    then show ?thesis unfolding cX by (simp add: map_of_kept[OF nd] del: map_of_append)
  qed
  have dv: "map_of (cols ?X) c = map_of ?F c"
    if "c \<in> set (derived ''scheduledday'' @ derived ''appointmentday'')" for c
  proof -
    from that have nd: "c \<notin> set dropped" and "c \<notin> set columns"
      by (auto simp: derived_def dropped_def columns_def)
    with e have "c \<notin> fst ` set (cols ?f)" by (simp add: names_def)
    then have "map_of (cols ?f) c = None" by (simp add: map_of_eq_None_iff)
    then show ?thesis unfolding cX by (simp add: map_of_kept[OF nd] del: map_of_append)
  qed
  have 2: "\<forall>c\<in>set (derived ''scheduledday'' @ derived ''appointmentday'').
        \<exists>s. map_of (cols ?X) c = Some s \<and> (dtype s = DInt32 \<or> dtype s = DInt8)"
  proof
    fix c assume c: "c \<in> set (derived ''scheduledday'' @ derived ''appointmentday'')"
    then have "\<exists>s. map_of ?F c = Some s \<and> (dtype s = DInt32 \<or> dtype s = DInt8)"
      by (auto simp: derived_def features_def)
    with dv[OF c] show "\<exists>s. map_of (cols ?X) c = Some s \<and> (dtype s = DInt32 \<or> dtype s = DInt8)"
      by simp
  qed
  have split: "c \<in> set passthrough \<or> c \<in> set (derived ''scheduledday'' @ derived ''appointmentday'')"
    if "map_of (cols ?X) c = Some s" for c s
  proof -
    from that have "c \<in> set (names ?X)"
      by (auto simp: names_def dest: map_of_SomeD intro: rev_image_eqI)
    then show ?thesis
      unfolding n using kept_names[OF e] by (auto simp del: set_filter)
  qed
  have 3: "(\<forall>c s. map_of (cols ?X) c = Some s \<longrightarrow> numeric (dtype s)) \<longleftrightarrow>
      (\<forall>c\<in>set passthrough. \<forall>s. map_of (cols ?f) c = Some s \<longrightarrow> numeric (dtype s))"
  proof
    assume "\<forall>c s. map_of (cols ?X) c = Some s \<longrightarrow> numeric (dtype s)"
    then show "\<forall>c\<in>set passthrough. \<forall>s. map_of (cols ?f) c = Some s \<longrightarrow> numeric (dtype s)"
      by (simp add: pt[symmetric])
  next
    assume a: "\<forall>c\<in>set passthrough. \<forall>s. map_of (cols ?f) c = Some s \<longrightarrow> numeric (dtype s)"
    show "\<forall>c s. map_of (cols ?X) c = Some s \<longrightarrow> numeric (dtype s)"
    proof (intro allI impI)
      fix c s assume m: "map_of (cols ?X) c = Some s"
      from split[OF m] show "numeric (dtype s)"
      proof
        assume c: "c \<in> set passthrough"
        from m have "map_of (cols ?f) c = Some s" by (simp add: pt[OF c])
        with a c show ?thesis by blast
      next
        assume "c \<in> set (derived ''scheduledday'' @ derived ''appointmentday'')"
        with 2 obtain s' where "map_of (cols ?X) c = Some s'" "dtype s' = DInt32 \<or> dtype s' = DInt8"
          by blast
        with m show ?thesis by (auto simp: numeric_def)
      qed
    qed
  qed
  from pt have 4: "\<forall>c\<in>set passthrough. map_of (cols ?X) c = map_of (cols ?f) c"
    by blast
  show ?thesis
    by (rule exI[of _ "next_ref w + 4"], rule exI[of _ y], rule exI[of _ w'])
      (intro conjI run 1 2 3 4)
qed

subsection \<open>The example frames\<close>

lemma frame2_cols:
  "frame2 = \<lparr>cols =
     [(''patientid'', \<lparr>dtype = DInt64, cells = [VInt 1, VInt 3]\<rparr>),
      (''appointmentid'', \<lparr>dtype = DInt64, cells = [VInt 5642001, VInt 5642003]\<rparr>),
      (''gender'', \<lparr>dtype = DObject, cells = [VStr ''F'', VStr ''F'']\<rparr>),
      (''scheduledday'', \<lparr>dtype = DObject,
         cells = [VStr ''2016-04-29 18:38:08'', VStr ''2016-04-30 07:40:56'']\<rparr>),
      (''appointmentday'', \<lparr>dtype = DObject,
         cells = [VStr ''2016-04-29 00:00:00'', VStr ''2016-04-29 00:00:00'']\<rparr>),
      (''age'', \<lparr>dtype = DInt64, cells = [VInt 62, VInt 30]\<rparr>),
      (''neighbourhood'', \<lparr>dtype = DObject,
         cells = [VStr ''JARDIM DA PENHA'', VStr ''JARDIM DA PENHA'']\<rparr>),
      (''scholarship'', \<lparr>dtype = DInt64, cells = [VInt 0, VInt 0]\<rparr>),
      (''hipertension'', \<lparr>dtype = DInt64, cells = [VInt 1, VInt 1]\<rparr>),
      (''diabetes'', \<lparr>dtype = DInt64, cells = [VInt 0, VInt 0]\<rparr>),
      (''alcoholism'', \<lparr>dtype = DInt64, cells = [VInt 0, VInt 0]\<rparr>),
      (''handcap'', \<lparr>dtype = DInt64, cells = [VInt 0, VInt 0]\<rparr>),
      (''sms_received'', \<lparr>dtype = DInt64, cells = [VInt 0, VInt 0]\<rparr>),
      (''showed_up'', \<lparr>dtype = DInt64, cells = [VInt 1, VInt 1]\<rparr>),
      (''date_diff'', \<lparr>dtype = DInt64, cells = [VInt 0, VInt 0]\<rparr>)],
     nrows = 2\<rparr>"
  by (simp add: frame2_def example_frame_def DataFrame_rows_def columns_def appt_def
      make_series_def infer_dtype_def seen_nothing_def cell_of_def upt_rec)

lemma frame2_expected: "expected_columns (store (world_of frame2) 0)"
  by (simp add: world_of_def frame2_cols expected_columns_def names_def columns_def)

lemma frame2_scheduled:
  "converts parse_example (store (world_of frame2) 0) ''scheduledday''
     [1461955088000000000, 1462002056000000000]"
  by (simp add: world_of_def frame2_cols converts_def to_datetime_def parse_example_def ebind_def)

lemma frame2_appointment:
  "converts parse_example (store (world_of frame2) 0) ''appointmentday''
     [1461888000000000000, 1461888000000000000]"
  by (simp add: world_of_def frame2_cols converts_def to_datetime_def parse_example_def ebind_def)

lemmas run_defs =
  noshows_data_preprocessing_def bnd_def df_drop_def new_frame_def drop_columns_def names_def
  df_astype_def lift_def astype_columns_def ebind_def to_datetime_def parse_example_def
  date_cols_def date_features_def assign_def df_getitem_def df_setitem_def set_column_def
  dt_def is_weekend_def part_of_day_def series_ge_def pd_cut_def astype_int8_def ret_def
  world_of_def

lemma frame_undated_cols:
  "cols frame_undated =
     [(''patientid'', \<lparr>dtype = DInt64, cells = [VInt 4]\<rparr>),
      (''appointmentid'', \<lparr>dtype = DInt64, cells = [VInt 5642004]\<rparr>),
      (''gender'', \<lparr>dtype = DObject, cells = [VStr ''F'']\<rparr>),
      (''scheduledday'', \<lparr>dtype = DObject, cells = [VNone]\<rparr>),
      (''appointmentday'', \<lparr>dtype = DObject, cells = [VStr ''2016-04-29 00:00:00'']\<rparr>),
      (''age'', \<lparr>dtype = DInt64, cells = [VInt 45]\<rparr>),
      (''neighbourhood'', \<lparr>dtype = DObject, cells = [VStr ''JARDIM DA PENHA'']\<rparr>),
      (''scholarship'', \<lparr>dtype = DInt64, cells = [VInt 0]\<rparr>),
      (''hipertension'', \<lparr>dtype = DInt64, cells = [VInt 1]\<rparr>),
      (''diabetes'', \<lparr>dtype = DInt64, cells = [VInt 0]\<rparr>),
      (''alcoholism'', \<lparr>dtype = DInt64, cells = [VInt 0]\<rparr>),
      (''handcap'', \<lparr>dtype = DInt64, cells = [VInt 0]\<rparr>),
      (''sms_received'', \<lparr>dtype = DInt64, cells = [VInt 0]\<rparr>),
      (''showed_up'', \<lparr>dtype = DInt64, cells = [VInt 1]\<rparr>),
      (''date_diff'', \<lparr>dtype = DInt64, cells = [VInt 0]\<rparr>)]"
  by (simp add: frame_undated_def example_frame_def DataFrame_rows_def columns_def appt_def
      make_series_def infer_dtype_def seen_nothing_def cell_of_def upt_rec)

text \<open>
  Claim C3 as stated fails on a frame with the fifteen columns whose scheduling date
  is missing: the cast of the part-of-day category to \<^verbatim>\<open>int8\<close> raises a ValueError and
  no \<open>(X, y)\<close> is returned.
\<close>

theorem missing_date_raises:
  "expected_columns (store (world_of frame_undated) 0) \<and>
   fst (noshows_data_preprocessing parse_example 0 (world_of frame_undated)) = Inl ValueError"
proof -
  have "expected_columns (store (world_of frame_undated) 0)"
    by (simp add: world_of_def frame_undated_cols expected_columns_def names_def columns_def)
  moreover have "fst (noshows_data_preprocessing parse_example 0 (world_of frame_undated))
      = Inl ValueError"
    by (simp add: run_defs frame_undated_cols)
  ultimately show ?thesis by simp
qed

lemma frame_no_diff_cols:
  "cols frame_no_diff =
     [(''patientid'', \<lparr>dtype = DInt64, cells = [VInt 4]\<rparr>),
      (''appointmentid'', \<lparr>dtype = DInt64, cells = [VInt 5642004]\<rparr>),
      (''gender'', \<lparr>dtype = DObject, cells = [VStr ''F'']\<rparr>),
      (''scheduledday'', \<lparr>dtype = DObject, cells = [VStr ''2016-04-29 16:08:27'']\<rparr>),
      (''appointmentday'', \<lparr>dtype = DObject, cells = [VStr ''2016-04-29 00:00:00'']\<rparr>),
      (''age'', \<lparr>dtype = DInt64, cells = [VInt 45]\<rparr>),
      (''neighbourhood'', \<lparr>dtype = DObject, cells = [VStr ''JARDIM DA PENHA'']\<rparr>),
      (''scholarship'', \<lparr>dtype = DInt64, cells = [VInt 0]\<rparr>),
      (''hipertension'', \<lparr>dtype = DInt64, cells = [VInt 1]\<rparr>),
      (''diabetes'', \<lparr>dtype = DInt64, cells = [VInt 0]\<rparr>),
      (''alcoholism'', \<lparr>dtype = DInt64, cells = [VInt 0]\<rparr>),
      (''handcap'', \<lparr>dtype = DInt64, cells = [VInt 0]\<rparr>),
      (''sms_received'', \<lparr>dtype = DInt64, cells = [VInt 0]\<rparr>),
      (''showed_up'', \<lparr>dtype = DInt64, cells = [VInt 1]\<rparr>),
      (''date_diff'', \<lparr>dtype = DObject, cells = [VNone]\<rparr>)]"
  by (simp add: frame_no_diff_def example_frame_def DataFrame_rows_def columns_def appt_def
      make_series_def infer_dtype_def seen_nothing_def cell_of_def upt_rec)

text \<open>
  Claim C4 as stated fails on a frame with the fifteen columns whose \<^verbatim>\<open>date_diff\<close>
  is missing in every row: pandas gives that column the dtype \<^verbatim>\<open>object\<close>, and it
  reaches \<open>X\<close> (the object at reference 5) as it is.
\<close>

theorem object_column_passes_through:
  "expected_columns (store (world_of frame_no_diff) 0) \<and>
   map_sum id fst (fst (noshows_data_preprocessing parse_example 0 (world_of frame_no_diff)))
     = Inr 5 \<and>
   map_of (cols (store (snd (noshows_data_preprocessing parse_example 0
                               (world_of frame_no_diff))) 5)) ''date_diff''
     = Some \<lparr>dtype = DObject, cells = [VNone]\<rparr> \<and>
   \<not> numeric DObject"
proof -
  let ?w = "world_of frame_no_diff"
  have f: "cols (store ?w 0) = cols frame_no_diff" "next_ref ?w = 1"
    by (simp_all add: world_of_def)
  have e: "expected_columns (store ?w 0)"
    by (simp add: f frame_no_diff_cols expected_columns_def names_def columns_def)
  have c1: "converts parse_example (store ?w 0) ''scheduledday'' [1461946107000000000]"
    by (simp add: f frame_no_diff_cols converts_def to_datetime_def parse_example_def ebind_def)
  have c2: "converts parse_example (store ?w 0) ''appointmentday'' [1461888000000000000]"
    by (simp add: f frame_no_diff_cols converts_def to_datetime_def parse_example_def ebind_def)
  from preprocessing_result [OF prepared_expected [OF e c1 c2]]
  obtain w' y where run: "noshows_data_preprocessing parse_example 0 ?w = (Inr (next_ref ?w + 4, y), w')"
    and X: "store w' (next_ref ?w + 4) =
       (store ?w 0)\<lparr>cols := filter (\<lambda>(c, s). c \<notin> set dropped) (cols (store ?w 0))
          @ features ''scheduledday'' [1461946107000000000]
          @ features ''appointmentday'' [1461888000000000000]\<rparr>"
    by blast
  have k: "filter (\<lambda>(c, s). c \<notin> set dropped) (cols frame_no_diff) =
     [(''age'', \<lparr>dtype = DInt64, cells = [VInt 45]\<rparr>),
      (''scholarship'', \<lparr>dtype = DInt64, cells = [VInt 0]\<rparr>),
      (''hipertension'', \<lparr>dtype = DInt64, cells = [VInt 1]\<rparr>),
      (''diabetes'', \<lparr>dtype = DInt64, cells = [VInt 0]\<rparr>),
      (''alcoholism'', \<lparr>dtype = DInt64, cells = [VInt 0]\<rparr>),
      (''handcap'', \<lparr>dtype = DInt64, cells = [VInt 0]\<rparr>),
      (''sms_received'', \<lparr>dtype = DInt64, cells = [VInt 0]\<rparr>),
      (''date_diff'', \<lparr>dtype = DObject, cells = [VNone]\<rparr>)]"
    by (simp add: frame_no_diff_cols dropped_def)
  have "map_of (cols (store w' 5)) ''date_diff'' = Some \<lparr>dtype = DObject, cells = [VNone]\<rparr>"
    using X by (simp add: f k)
  with run e show ?thesis
    by (simp add: f numeric_def)
qed

text \<open>
  The store that holds \<open>frame2\<close> at reference 0.
\<close>

theorem argument_unchanged_witness:
  "0 < next_ref (world_of frame2) \<and>
   store (snd (noshows_data_preprocessing parse_example 0 (world_of frame2))) 0
     = store (world_of frame2) 0"
  using argument_unchanged [of 0 "world_of frame2" parse_example 0]
  by (simp add: world_of_def)

text \<open>
  The two appointments of \<open>frame2\<close>.
\<close>

theorem preprocessing_columns_witness:
  "expected_columns (store (world_of frame2) 0) \<and>
   converts parse_example (store (world_of frame2) 0) ''scheduledday''
     [1461955088000000000, 1462002056000000000] \<and>
   converts parse_example (store (world_of frame2) 0) ''appointmentday''
     [1461888000000000000, 1461888000000000000] \<and>
   (\<exists>X y w'. noshows_data_preprocessing parse_example 0 (world_of frame2) = (Inr (X, y), w') \<and>
     map_of (cols (store (world_of frame2) 0)) ''showed_up'' = Some y \<and>
     distinct (names (store w' X)) \<and>
     set (names (store w' X)) = set feature_columns \<and>
     set (names (store w' X)) \<inter> set dropped = {} \<and>
     names (store w' X) = feature_columns)"
proof -
  have "names (store (world_of frame2) 0) = columns"
    by (simp add: world_of_def frame2_cols names_def columns_def)
  with preprocessing_columns [OF frame2_expected frame2_scheduled frame2_appointment]
  have "\<exists>X y w'. noshows_data_preprocessing parse_example 0 (world_of frame2) = (Inr (X, y), w') \<and>
     map_of (cols (store (world_of frame2) 0)) ''showed_up'' = Some y \<and>
     distinct (names (store w' X)) \<and>
     set (names (store w' X)) = set feature_columns \<and>
     set (names (store w' X)) \<inter> set dropped = {} \<and>
     names (store w' X) = feature_columns"
    by simp
  with frame2_expected frame2_scheduled frame2_appointment show ?thesis
    by (intro conjI)
qed

text \<open>
  The two appointments of \<open>frame2\<close>.
\<close>

theorem feature_dtypes_witness:
  "expected_columns (store (world_of frame2) 0) \<and>
   converts parse_example (store (world_of frame2) 0) ''scheduledday''
     [1461955088000000000, 1462002056000000000] \<and>
   converts parse_example (store (world_of frame2) 0) ''appointmentday''
     [1461888000000000000, 1461888000000000000] \<and>
   (\<exists>X y w'. noshows_data_preprocessing parse_example 0 (world_of frame2) = (Inr (X, y), w') \<and>
     ''gender'' \<notin> set (names (store w' X)) \<and> ''neighbourhood'' \<notin> set (names (store w' X)) \<and>
     (\<forall>c\<in>set (derived ''scheduledday'' @ derived ''appointmentday'').
        \<exists>s. map_of (cols (store w' X)) c = Some s \<and> (dtype s = DInt32 \<or> dtype s = DInt8)) \<and>
     (\<forall>c\<in>set passthrough.
        map_of (cols (store w' X)) c = map_of (cols (store (world_of frame2) 0)) c) \<and>
     ((\<forall>c s. map_of (cols (store w' X)) c = Some s \<longrightarrow> numeric (dtype s)) \<longleftrightarrow>
      (\<forall>c\<in>set passthrough. \<forall>s. map_of (cols (store (world_of frame2) 0)) c = Some s
          \<longrightarrow> numeric (dtype s))))"
  using feature_dtypes [OF frame2_expected frame2_scheduled frame2_appointment]
    frame2_expected frame2_scheduled frame2_appointment
  by (intro conjI)

subsection \<open>Weekend and part of day\<close>

lemma derived_lookup:
  assumes "set (names f) = set columns"
    and "cols Xf = filter (\<lambda>(c, s). c \<notin> set dropped) (cols f) @ F"
    and "c \<in> set (derived ''scheduledday'' @ derived ''appointmentday'')"
  shows "map_of (cols Xf) c = map_of F c"
proof -
  from assms(3) have nd: "c \<notin> set dropped" and "c \<notin> set columns"
    by (auto simp: derived_def dropped_def columns_def)
  with assms(1) have "c \<notin> fst ` set (cols f)" by (simp add: names_def)
  then have "map_of (cols f) c = None" by (simp add: map_of_eq_None_iff)
  then show ?thesis unfolding assms(2) by (simp add: map_of_kept[OF nd] del: map_of_append)
qed

lemma weekend_cells:
  "map (\<lambda>t. VInt (if 5 \<le> dayofweek t then 1 else 0)) ts
     = map (\<lambda>t. VInt (if dayofweek t = 5 \<or> dayofweek t = 6 then 1 else 0)) ts"
proof (rule map_cong [OF refl])
  fix t
  from dayofweek_range [of t] have "5 \<le> dayofweek t \<longleftrightarrow> dayofweek t = 5 \<or> dayofweek t = 6"
    by auto
  then show "VInt (if 5 \<le> dayofweek t then 1 else 0)
      = VInt (if dayofweek t = 5 \<or> dayofweek t = 6 then 1 else 0)"
    by simp
qed

lemma part_of_day_cells:
  "map (\<lambda>t. VInt (hour_bin (hour t))) ts
     = map (\<lambda>t. VInt (if 0 \<le> hour t \<and> hour t \<le> 6 then 0
                      else if 7 \<le> hour t \<and> hour t \<le> 12 then 1
                      else if 13 \<le> hour t \<and> hour t \<le> 17 then 2 else 3)) ts"
proof (rule map_cong [OF refl])
  fix t
  from hour_range [of t] show "VInt (hour_bin (hour t))
     = VInt (if 0 \<le> hour t \<and> hour t \<le> 6 then 0
                      else if 7 \<le> hour t \<and> hour t \<le> 12 then 1
                      else if 13 \<le> hour t \<and> hour t \<le> 17 then 2 else 3)"
    by (auto simp: hour_bin_def)
qed

lemma scheduled_features:
  "map_of (features ''scheduledday'' ts1 @ features ''appointmentday'' ts2)
     (''scheduledday'' @ ''_dow'')
     = Some \<lparr>dtype = DInt32, cells = map (\<lambda>t. VInt (dayofweek t)) ts1\<rparr>"
  "map_of (features ''scheduledday'' ts1 @ features ''appointmentday'' ts2)
     (''scheduledday'' @ ''_hour'')
     = Some \<lparr>dtype = DInt32, cells = map (\<lambda>t. VInt (hour t)) ts1\<rparr>"
  "map_of (features ''scheduledday'' ts1 @ features ''appointmentday'' ts2)
     (''scheduledday'' @ ''_is_weekend'')
     = Some \<lparr>dtype = DInt8, cells = map (\<lambda>t. VInt (if 5 \<le> dayofweek t then 1 else 0)) ts1\<rparr>"
  "map_of (features ''scheduledday'' ts1 @ features ''appointmentday'' ts2)
     (''scheduledday'' @ ''_part_of_day'')
     = Some \<lparr>dtype = DInt8, cells = map (\<lambda>t. VInt (hour_bin (hour t))) ts1\<rparr>"
  by (simp_all add: features_def)

lemma appointment_features:
  "map_of (features ''scheduledday'' ts1 @ features ''appointmentday'' ts2)
     (''appointmentday'' @ ''_dow'')
     = Some \<lparr>dtype = DInt32, cells = map (\<lambda>t. VInt (dayofweek t)) ts2\<rparr>"
  "map_of (features ''scheduledday'' ts1 @ features ''appointmentday'' ts2)
     (''appointmentday'' @ ''_hour'')
     = Some \<lparr>dtype = DInt32, cells = map (\<lambda>t. VInt (hour t)) ts2\<rparr>"
  "map_of (features ''scheduledday'' ts1 @ features ''appointmentday'' ts2)
     (''appointmentday'' @ ''_is_weekend'')
     = Some \<lparr>dtype = DInt8, cells = map (\<lambda>t. VInt (if 5 \<le> dayofweek t then 1 else 0)) ts2\<rparr>"
  "map_of (features ''scheduledday'' ts1 @ features ''appointmentday'' ts2)
     (''appointmentday'' @ ''_part_of_day'')
     = Some \<lparr>dtype = DInt8, cells = map (\<lambda>t. VInt (hour_bin (hour t))) ts2\<rparr>"
  by (simp_all add: features_def)

lemma derived_members:
  "''scheduledday'' @ ''_dow'' \<in> set (derived ''scheduledday'' @ derived ''appointmentday'')"
  "''scheduledday'' @ ''_hour'' \<in> set (derived ''scheduledday'' @ derived ''appointmentday'')"
  "''scheduledday'' @ ''_is_weekend'' \<in> set (derived ''scheduledday'' @ derived ''appointmentday'')"
  "''scheduledday'' @ ''_part_of_day'' \<in> set (derived ''scheduledday'' @ derived ''appointmentday'')"
  "''appointmentday'' @ ''_dow'' \<in> set (derived ''scheduledday'' @ derived ''appointmentday'')"
  "''appointmentday'' @ ''_hour'' \<in> set (derived ''scheduledday'' @ derived ''appointmentday'')"
  "''appointmentday'' @ ''_is_weekend'' \<in> set (derived ''scheduledday'' @ derived ''appointmentday'')"
  "''appointmentday'' @ ''_part_of_day'' \<in> set (derived ''scheduledday'' @ derived ''appointmentday'')"
  by (simp_all add: derived_def)

text \<open>
  Claim C10.  For each date column, when the function returns, the \<^verbatim>\<open>_is_weekend\<close>
  column of \<open>X\<close> is 1 exactly for the timestamps whose day of week is 5 or 6 (Saturday,
  Sunday) and 0 otherwise, and the \<^verbatim>\<open>_part_of_day\<close> column maps the hour \<open>h\<close> as: 0 to 6
  gives 0, 7 to 12 gives 1, 13 to 17 gives 2, what remains (18 to 23) gives 3; the day
  of week lies between 0 and 6 and the hour between 0 and 23.
\<close>

theorem weekend_and_part_of_day:
  assumes "expected_columns (store w df)"
    and "converts P (store w df) ''scheduledday'' ts1"
    and "converts P (store w df) ''appointmentday'' ts2"
    and "(col, ts) = (''scheduledday'', ts1) \<or> (col, ts) = (''appointmentday'', ts2)"
  shows "\<exists>X y w'. noshows_data_preprocessing P df w = (Inr (X, y), w') \<and>
     map_of (cols (store w' X)) (col @ ''_dow'')
       = Some \<lparr>dtype = DInt32, cells = map (\<lambda>t. VInt (dayofweek t)) ts\<rparr> \<and>
     map_of (cols (store w' X)) (col @ ''_hour'')
       = Some \<lparr>dtype = DInt32, cells = map (\<lambda>t. VInt (hour t)) ts\<rparr> \<and>
     map_of (cols (store w' X)) (col @ ''_is_weekend'')
       = Some \<lparr>dtype = DInt8,
               cells = map (\<lambda>t. VInt (if dayofweek t = 5 \<or> dayofweek t = 6 then 1 else 0)) ts\<rparr> \<and>
     map_of (cols (store w' X)) (col @ ''_part_of_day'')
       = Some \<lparr>dtype = DInt8,
               cells = map (\<lambda>t. VInt (if 0 \<le> hour t \<and> hour t \<le> 6 then 0
                                      else if 7 \<le> hour t \<and> hour t \<le> 12 then 1
                                      else if 13 \<le> hour t \<and> hour t \<le> 17 then 2 else 3)) ts\<rparr> \<and>
     (\<forall>t\<in>set ts. 0 \<le> dayofweek t \<and> dayofweek t \<le> 6 \<and> 0 \<le> hour t \<and> hour t \<le> 23)"
proof -
  let ?f = "store w df"
  let ?F = "features ''scheduledday'' ts1 @ features ''appointmentday'' ts2"
  from preprocessing_result[OF prepared_expected[OF assms(1-3)]]
  obtain w' y where run: "noshows_data_preprocessing P df w = (Inr (next_ref w + 4, y), w')"
    and X: "store w' (next_ref w + 4) = ?f\<lparr>cols := filter (\<lambda>(c, s). c \<notin> set dropped) (cols ?f) @ ?F\<rparr>"
    by blast
  let ?X = "store w' (next_ref w + 4)"
  from assms(1) have e: "set (names ?f) = set columns"
    by (simp add: expected_columns_def)
  have cX: "cols ?X = filter (\<lambda>(c, s). c \<notin> set dropped) (cols ?f) @ ?F"
    by (simp add: X)
  note look = derived_lookup[OF e cX]
  have 1234: "map_of (cols ?X) (col @ ''_dow'')
       = Some \<lparr>dtype = DInt32, cells = map (\<lambda>t. VInt (dayofweek t)) ts\<rparr> \<and>
     map_of (cols ?X) (col @ ''_hour'')
       = Some \<lparr>dtype = DInt32, cells = map (\<lambda>t. VInt (hour t)) ts\<rparr> \<and>
     map_of (cols ?X) (col @ ''_is_weekend'')
       = Some \<lparr>dtype = DInt8,
               cells = map (\<lambda>t. VInt (if dayofweek t = 5 \<or> dayofweek t = 6 then 1 else 0)) ts\<rparr> \<and>
     map_of (cols ?X) (col @ ''_part_of_day'')
       = Some \<lparr>dtype = DInt8,
               cells = map (\<lambda>t. VInt (if 0 \<le> hour t \<and> hour t \<le> 6 then 0
                                      else if 7 \<le> hour t \<and> hour t \<le> 12 then 1
                                      else if 13 \<le> hour t \<and> hour t \<le> 17 then 2 else 3)) ts\<rparr>"
    using assms(4)
  proof
    assume "(col, ts) = (''scheduledday'', ts1)"
    then have c: "col = ''scheduledday''" "ts = ts1" by simp_all
    show ?thesis
      unfolding c weekend_cells[symmetric] part_of_day_cells[symmetric]
      by (intro conjI; (subst look, rule derived_members, rule scheduled_features))
  next
    assume "(col, ts) = (''appointmentday'', ts2)"
    then have c: "col = ''appointmentday''" "ts = ts2" by simp_all
    show ?thesis
      unfolding c weekend_cells[symmetric] part_of_day_cells[symmetric]
      by (intro conjI; (subst look, rule derived_members, rule appointment_features))
  qed
  have 5: "\<forall>t\<in>set ts. 0 \<le> dayofweek t \<and> dayofweek t \<le> 6 \<and> 0 \<le> hour t \<and> hour t \<le> 23"
    using hour_range dayofweek_range by blast
  show ?thesis
    by (rule exI[of _ "next_ref w + 4"], rule exI[of _ y], rule exI[of _ w'])
      (intro conjI run 1234[THEN conjunct1] 1234[THEN conjunct2, THEN conjunct1]
        1234[THEN conjunct2, THEN conjunct2, THEN conjunct1]
        1234[THEN conjunct2, THEN conjunct2, THEN conjunct2] 5)
qed


text \<open>
  The two appointments of \<open>frame2\<close>: a Friday at 18 h and a Saturday at 7 h.
\<close>

theorem weekend_and_part_of_day_witness:
  "expected_columns (store (world_of frame2) 0) \<and>
   converts parse_example (store (world_of frame2) 0) ''scheduledday''
     [1461955088000000000, 1462002056000000000] \<and>
   converts parse_example (store (world_of frame2) 0) ''appointmentday''
     [1461888000000000000, 1461888000000000000] \<and>
   (\<exists>X y w'. noshows_data_preprocessing parse_example 0 (world_of frame2) = (Inr (X, y), w') \<and>
     map_of (cols (store w' X)) ''scheduledday_dow''
       = Some \<lparr>dtype = DInt32, cells = [VInt 4, VInt 5]\<rparr> \<and>
     map_of (cols (store w' X)) ''scheduledday_hour''
       = Some \<lparr>dtype = DInt32, cells = [VInt 18, VInt 7]\<rparr> \<and>
     map_of (cols (store w' X)) ''scheduledday_is_weekend''
       = Some \<lparr>dtype = DInt8, cells = [VInt 0, VInt 1]\<rparr> \<and>
     map_of (cols (store w' X)) ''scheduledday_part_of_day''
       = Some \<lparr>dtype = DInt8, cells = [VInt 3, VInt 1]\<rparr>)"
proof -
  have d: "dayofweek 1461955088000000000 = 4" "dayofweek 1462002056000000000 = 5"
    "hour 1461955088000000000 = 18" "hour 1462002056000000000 = 7"
    by (simp_all add: dayofweek_def day_number_def hour_def)
  from weekend_and_part_of_day [OF frame2_expected frame2_scheduled frame2_appointment,
      of "''scheduledday''" "[1461955088000000000, 1462002056000000000]"]
  obtain X y w' where
    "noshows_data_preprocessing parse_example 0 (world_of frame2) = (Inr (X, y), w')"
    "map_of (cols (store w' X)) ''scheduledday_dow''
       = Some \<lparr>dtype = DInt32, cells = [VInt 4, VInt 5]\<rparr>"
    "map_of (cols (store w' X)) ''scheduledday_hour''
       = Some \<lparr>dtype = DInt32, cells = [VInt 18, VInt 7]\<rparr>"
    "map_of (cols (store w' X)) ''scheduledday_is_weekend''
       = Some \<lparr>dtype = DInt8, cells = [VInt 0, VInt 1]\<rparr>"
    "map_of (cols (store w' X)) ''scheduledday_part_of_day''
       = Some \<lparr>dtype = DInt8, cells = [VInt 3, VInt 1]\<rparr>"
    by (auto simp: d)
  with frame2_expected frame2_scheduled frame2_appointment show ?thesis
    by (intro conjI exI [of _ X] exI [of _ y] exI [of _ w'])
qed

section \<open>Properties of the inference pipeline\<close>

subsection \<open>The difference of two clock readings\<close>

lemma round_half_even_zero: "round_half_even 0 k = 0"
  by (simp add: round_half_even_def)

lemma to_binary64_nonneg:
  assumes "0 \<le> m"
  shows "float_le (Finite 0 0) (to_binary64 m e)"
proof (cases "m = 0")
  case True
  then show ?thesis by (simp add: to_binary64_def round_half_even_zero Let_def)
next
  case False
  with assms have "0 < m" by simp
  then show ?thesis by (simp add: to_binary64_def Let_def)
qed

lemma float_sub_nonneg:
  assumes "float_le (Finite m1 e1) (Finite m2 e2)"
  shows "float_le (Finite 0 0) (float_sub (Finite m2 e2) (Finite m1 e1))"
proof -
  from assms have "0 \<le> m2 * 2 ^ nat (e2 - min e2 e1) - m1 * 2 ^ nat (e1 - min e2 e1)"
    by (simp add: Let_def min.commute)
  from to_binary64_nonneg [OF this] show ?thesis by (simp add: Let_def)
qed

lemma to_binary64_small:
  "to_binary64 2 0 = Finite 2 0" "to_binary64 (- 5) 0 = Finite (- 5) 0"
  by (simp_all add: to_binary64_def round_half_even_def bit_length.simps Let_def)

subsection \<open>The run of the pipeline\<close>

lemma decorator_run:
  "measure_time_decorator func args w =
     (case func args (w\<lparr>ticks := Suc (ticks w)\<rparr>) of
        (Inl e, w1) \<Rightarrow> (Inl e, w1)
      | (Inr r, w1) \<Rightarrow>
          (Inr (r, float_sub (clock w1 (ticks w1)) (clock w (ticks w))),
           w1\<lparr>ticks := Suc (ticks w1)\<rparr>))"
  by (simp add: measure_time_decorator_def bnd_def time_time_def ret_def
      split: prod.splits sum.splits)

lemma wrapped_run:
  "inference_pipeline_wrapped lgb P (model_path, df) w =
     (case Booster lgb model_path of
        Inl e \<Rightarrow> (Inl e, w)
      | Inr model \<Rightarrow>
          (case noshows_data_preprocessing P df w of
             (Inl e, w1) \<Rightarrow> (Inl e, w1)
           | (Inr (X, y), w1) \<Rightarrow> (predict lgb model (store w1 X), w1)))"
  by (simp add: inference_pipeline_wrapped_def bnd_def load_lightgbm_model_def lift_def
      model_inference_def ret_def split: prod.splits sum.splits)

lemma wrapped_clock:
  "clock (snd (inference_pipeline_wrapped lgb P (model_path, df) w)) = clock w \<and>
   ticks (snd (inference_pipeline_wrapped lgb P (model_path, df) w)) = ticks w"
  using preprocessing_clock [of P df w]
  by (auto simp: wrapped_run split: prod.splits sum.splits)

lemma pipeline_run:
  "inference_pipeline lgb P (model_path, df) w =
     (case inference_pipeline_wrapped lgb P (model_path, df) (w\<lparr>ticks := Suc (ticks w)\<rparr>) of
        (Inl e, w1) \<Rightarrow> (Inl e, w1)
      | (Inr y_pred, w1) \<Rightarrow>
          (Inr (y_pred, float_sub (clock w (Suc (ticks w))) (clock w (ticks w))),
           w1\<lparr>ticks := Suc (Suc (ticks w))\<rparr>))"
  using wrapped_clock [of lgb P model_path df "w\<lparr>ticks := Suc (ticks w)\<rparr>"]
  by (auto simp: inference_pipeline_def decorator_run split: prod.splits sum.splits)


text \<open>
  Claim C5, amended.  \<open>inference_pipeline\<close> returns a pair \<open>(y_pred, elapsed_time)\<close>
  exactly when the model loads, the preprocessing of \<open>df\<close> returns \<open>(X, y)\<close> and the
  booster's \<open>predict\<close> returns \<open>y_pred\<close> on \<open>X\<close>; \<open>elapsed_time\<close> is the second reading
  of \<^verbatim>\<open>time.time()\<close> minus the first, as floats subtract; it is non-negative when
  the two readings are finite and the clock has not been set back between them; and
  the decorator hands on the result or the exception of the function it wraps as it is.
\<close>

theorem pipeline_result_and_time:
  "(inference_pipeline lgb P (model_path, df) w = (Inr (y_pred, elapsed_time), w') \<longleftrightarrow>
      (\<exists>model X y w1.
          Booster lgb model_path = Inr model \<and>
          noshows_data_preprocessing P df (w\<lparr>ticks := Suc (ticks w)\<rparr>) = (Inr (X, y), w1) \<and>
          predict lgb model (store w1 X) = Inr y_pred \<and>
          elapsed_time = float_sub (clock w (Suc (ticks w))) (clock w (ticks w)) \<and>
          w' = w1\<lparr>ticks := Suc (Suc (ticks w))\<rparr>)) \<and>
   (clock w (ticks w) = Finite m1 e1 \<and> clock w (Suc (ticks w)) = Finite m2 e2 \<and>
    float_le (clock w (ticks w)) (clock w (Suc (ticks w))) \<longrightarrow>
      float_le (Finite 0 0) (float_sub (clock w (Suc (ticks w))) (clock w (ticks w)))) \<and>
   map_sum id fst (fst (measure_time_decorator func args w))
     = fst (func args (w\<lparr>ticks := Suc (ticks w)\<rparr>))"
proof (intro conjI)
  show "inference_pipeline lgb P (model_path, df) w = (Inr (y_pred, elapsed_time), w') \<longleftrightarrow>
      (\<exists>model X y w1.
          Booster lgb model_path = Inr model \<and>
          noshows_data_preprocessing P df (w\<lparr>ticks := Suc (ticks w)\<rparr>) = (Inr (X, y), w1) \<and>
          predict lgb model (store w1 X) = Inr y_pred \<and>
          elapsed_time = float_sub (clock w (Suc (ticks w))) (clock w (ticks w)) \<and>
          w' = w1\<lparr>ticks := Suc (Suc (ticks w))\<rparr>)"
    unfolding pipeline_run wrapped_run
    by (cases "Booster lgb model_path";
        cases "noshows_data_preprocessing P df (w\<lparr>ticks := Suc (ticks w)\<rparr>)")
      (auto split: sum.splits prod.splits)
  show "clock w (ticks w) = Finite m1 e1 \<and> clock w (Suc (ticks w)) = Finite m2 e2 \<and>
    float_le (clock w (ticks w)) (clock w (Suc (ticks w))) \<longrightarrow>
      float_le (Finite 0 0) (float_sub (clock w (Suc (ticks w))) (clock w (ticks w)))"
    using float_sub_nonneg [of m1 e1 m2 e2] by auto
  show "map_sum id fst (fst (measure_time_decorator func args w))
     = fst (func args (w\<lparr>ticks := Suc (ticks w)\<rparr>))"
    by (simp add: decorator_run split: prod.splits sum.splits)
qed

lemma frame2_run:
  assumes "store w = store (world_of frame2)" "next_ref w = 1"
  shows "\<exists>y w1. noshows_data_preprocessing parse_example 0 w = (Inr (5, y), w1)
             \<and> nrows (store w1 5) = 2"
proof -
  have "prepared parse_example (store w 0) [1461955088000000000, 1462002056000000000]
      [1461888000000000000, 1461888000000000000]"
    unfolding assms(1)
    by (rule prepared_expected [OF frame2_expected frame2_scheduled frame2_appointment])
  from preprocessing_result [OF this] obtain w1 y where
    run: "noshows_data_preprocessing parse_example 0 w = (Inr (next_ref w + 4, y), w1)"
    and X: "store w1 (next_ref w + 4) =
      (store w 0)\<lparr>cols := filter (\<lambda>(c, s). c \<notin> set dropped) (cols (store w 0))
        @ features ''scheduledday'' [1461955088000000000, 1462002056000000000]
        @ features ''appointmentday'' [1461888000000000000, 1461888000000000000]\<rparr>"
    by blast
  have n: "next_ref w + 4 = 5" using assms(2) by simp
  have "nrows (store w1 5) = nrows (store w 0)"
    using X unfolding n by simp
  also have "store w 0 = frame2"
    unfolding assms(1) by (simp add: world_of_def)
  also have "nrows frame2 = 2"
    by (simp add: frame2_cols)
  finally have "nrows (store w1 5) = 2" .
  with run [unfolded n] show ?thesis by blast
qed

text \<open>
  The example model on \<open>frame2\<close>, with clock readings 100 and 102.
\<close>

theorem pipeline_result_and_time_witness:
  "clock (world_of frame2) (ticks (world_of frame2)) = Finite 100 0 \<and>
   clock (world_of frame2) (Suc (ticks (world_of frame2))) = Finite 102 0 \<and>
   float_le (Finite 100 0) (Finite 102 0) \<and>
   (\<exists>w'. inference_pipeline mock_lgb parse_example (''model.txt'', 0) (world_of frame2)
         = (Inr ([1 / 2, 1 / 2], Finite 2 0), w')) \<and>
   float_le (Finite 0 0) (float_sub (Finite 102 0) (Finite 100 0))"
proof -
  let ?w = "world_of frame2"
  have "\<exists>y w1. noshows_data_preprocessing parse_example 0 (?w\<lparr>ticks := Suc (ticks ?w)\<rparr>)
      = (Inr (5, y), w1) \<and> nrows (store w1 5) = 2"
    by (rule frame2_run) (simp_all add: world_of_def)
  then obtain y w1 where r: "noshows_data_preprocessing parse_example 0 (?w\<lparr>ticks := Suc (ticks ?w)\<rparr>)
      = (Inr (5, y), w1)" "nrows (store w1 5) = 2"
    by blast
  have b: "Booster mock_lgb ''model.txt'' = Inr ()"
    by (simp add: mock_lgb_def)
  have p: "predict mock_lgb () (store w1 5) = Inr [1 / 2, 1 / 2]"
    by (simp add: mock_lgb_def r(2) numeral_2_eq_2)
  have c: "clock ?w (ticks ?w) = Finite 100 0" "clock ?w (Suc (ticks ?w)) = Finite 102 0"
    by (simp_all add: world_of_def)
  have t: "Finite 2 0 = float_sub (clock ?w (Suc (ticks ?w))) (clock ?w (ticks ?w))"
    unfolding c by (simp add: to_binary64_small)
  have l: "float_le (clock ?w (ticks ?w)) (clock ?w (Suc (ticks ?w)))"
    unfolding c by simp
  have "inference_pipeline mock_lgb parse_example (''model.txt'', 0) ?w
      = (Inr ([1 / 2, 1 / 2], Finite 2 0), w1\<lparr>ticks := Suc (Suc (ticks ?w))\<rparr>)"
    by (rule pipeline_result_and_time [THEN conjunct1, THEN iffD2])
      (intro exI conjI, rule b, rule r(1), rule p, rule t, rule refl)
  moreover have "float_le (Finite 0 0) (float_sub (clock ?w (Suc (ticks ?w))) (clock ?w (ticks ?w)))"
    by (rule pipeline_result_and_time [THEN conjunct2, THEN conjunct1, THEN mp])
      (intro conjI, rule c(1), rule c(2), rule l)
  ultimately show ?thesis
    using c l by auto
qed

text \<open>
  Claim C5 as stated fails when the system clock is set back during the call: with
  readings 10 and 5 the elapsed time is \<open>-5\<close>, which is not \<open>0 <= -5\<close>.
\<close>

theorem clock_set_back_negative_time:
  "map_sum id snd (fst (inference_pipeline mock_lgb parse_example (''model.txt'', 0) world_back))
     = Inr (Finite (- 5) 0) \<and>
   \<not> float_le (Finite 0 0) (Finite (- 5) 0)"
proof -
  have "\<exists>y w1. noshows_data_preprocessing parse_example 0 (world_back\<lparr>ticks := Suc (ticks world_back)\<rparr>)
      = (Inr (5, y), w1) \<and> nrows (store w1 5) = 2"
    by (rule frame2_run) (simp_all add: world_back_def world_of_def)
  then obtain y w1 where r: "noshows_data_preprocessing parse_example 0
      (world_back\<lparr>ticks := Suc (ticks world_back)\<rparr>) = (Inr (5, y), w1)"
    by blast
  then show ?thesis
    by (simp add: pipeline_run wrapped_run mock_lgb_def)
       (simp add: world_back_def world_of_def to_binary64_small)
qed

end
